theory Spec2Isabelle
  imports Main
begin

section \<open>Thread-scaling experiment driver (master.py)\<close>

text \<open>
  A shallow embedding of \<^verbatim>\<open>thread_scaling/scripts/master.py\<close>. Python integers are
  \<^typ>\<open>int\<close>, strings are \<^typ>\<open>string\<close>, an uncaught exception is the left summand of
  a sum type. The script is written for Python 2 (it imports \<^verbatim>\<open>print_function\<close> from
  \<^verbatim>\<open>__future__\<close> and not \<^verbatim>\<open>division\<close>), so \<^verbatim>\<open>/\<close> between integers is floor
  division, as \<^verbatim>\<open>//\<close> is; Python's \<^verbatim>\<open>%\<close> and \<^verbatim>\<open>//\<close> round as HOL's \<open>mod\<close> and
  \<open>div\<close> on \<^typ>\<open>int\<close> do.
\<close>

subsection \<open>Exceptions\<close>

datatype error =
    UnknownTool string           \<comment> \<open>RuntimeError: Unknown tool\<close>
  | MakeFailed string string     \<comment> \<open>RuntimeError: non-zero return from make (tool, name)\<close>
  | CloneFailed string string    \<comment> \<open>RuntimeError: non-zero return from git clone (tool, name)\<close>
  | ExpectedSixTokens nat string \<comment> \<open>RuntimeError: Expected 6 tokens, got n: line\<close>
  | NoSuchReads string           \<comment> \<open>RuntimeError: No such reads file\<close>
  | CommandFailed int string     \<comment> \<open>RuntimeError: Exitlevel n from command\<close>
  | WrongLineCount int int string \<comment> \<open>RuntimeError: Expected n lines, found m in file\<close>
  | BlockedMultiprocessing       \<comment> \<open>RuntimeError: multiprocessing and blocked input\<close>
  | SplitMissing string          \<comment> \<open>RuntimeError: Split failed to create file\<close>
  | SplitExtra string            \<comment> \<open>RuntimeError: Got one more output file than expected\<close>
  | SubprocessFailed "int option list" \<comment> \<open>RuntimeError: non-zero exit level (stop-on-fail)\<close>
  | NotADirectory string         \<comment> \<open>RuntimeError: Temporary directory isn't a directory\<close>
  | AssertionError
  | IndexError
  | ValueError
  | KeyError
  | ZeroDivisionError
  | TypeError
  | CalledProcessError string    \<comment> \<open>subprocess.check_output on a failing command\<close>

subsection \<open>String primitives\<close>

definition TAB :: char where
  "TAB = CHR 0x09"

definition NL :: char where
  "NL = CHR 0x0A"

text \<open>\<^verbatim>\<open>s.split(sep)\<close> for a one-character separator: one more field than separators.\<close>

fun split_on :: "char \<Rightarrow> string \<Rightarrow> string list" where
  "split_on c [] = [[]]"
| "split_on c (x # xs) =
     (if x = c then [] # split_on c xs
      else (case split_on c xs of
              [] \<Rightarrow> [[x]]
            | t # ts \<Rightarrow> (x # t) # ts))"

fun startswith :: "string \<Rightarrow> string \<Rightarrow> bool" where
  "startswith s [] = True"
| "startswith [] (p # ps) = False"
| "startswith (c # cs) (p # ps) = (c = p \<and> startswith cs ps)"

definition endswith :: "string \<Rightarrow> string \<Rightarrow> bool" where
  "endswith s p = startswith (rev s) (rev p)"

text \<open>\<^verbatim>\<open>sub in s\<close> on strings: \<open>sub\<close> occurs as a contiguous run of \<open>s\<close>.\<close>

fun str_in :: "string \<Rightarrow> string \<Rightarrow> bool" where
  "str_in sub [] = (sub = [])"
| "str_in sub (c # cs) = (startswith (c # cs) sub \<or> str_in sub cs)"

text \<open>Python's ASCII whitespace: space, tab, newline, vertical tab, form feed, return.\<close>

definition is_space :: "char \<Rightarrow> bool" where
  "is_space c = (c \<in> {CHR '' '', CHR 0x09, CHR 0x0A, CHR 0x0B, CHR 0x0C, CHR 0x0D})"

definition rstrip :: "string \<Rightarrow> string" where
  "rstrip s = rev (dropWhile is_space (rev s))"

definition strip :: "string \<Rightarrow> string" where
  "strip s = dropWhile is_space (rstrip s)"

definition is_digit :: "char \<Rightarrow> bool" where
  "is_digit c = (c \<in> set ''0123456789'')"

definition digit_val :: "char \<Rightarrow> int" where
  "digit_val c = int (of_char c) - 48"

definition digits_val :: "string \<Rightarrow> int" where
  "digits_val ds = foldl (\<lambda>acc d. 10 * acc + digit_val d) 0 ds"

text \<open>
  \<^verbatim>\<open>int(s)\<close> on a string: surrounding whitespace is dropped, one sign is allowed, and what
  is left must be a non-empty run of decimal digits; anything else raises ValueError
  (\<open>None\<close> here).
\<close>

definition py_int :: "string \<Rightarrow> int option" where
  "py_int s =
     (let t = strip s;
          (sgn, ds) = (case t of
                         c # r \<Rightarrow> if c = CHR ''-'' then (-1, r)
                                  else if c = CHR ''+'' then (1, r) else (1, t)
                       | [] \<Rightarrow> (1, t))
      in if ds \<noteq> [] \<and> list_all is_digit ds then Some (sgn * digits_val ds) else None)"

text \<open>\<^verbatim>\<open>'%d' % n\<close>: the decimal numeral of an integer.\<close>

definition digit_char :: "nat \<Rightarrow> char" where
  "digit_char d = ''0123456789'' ! (d mod 10)"

fun str_nat :: "nat \<Rightarrow> string" where
  "str_nat n = (if n < 10 then [digit_char n] else str_nat (n div 10) @ [digit_char n])"

declare str_nat.simps [simp del]

definition str_int :: "int \<Rightarrow> string" where
  "str_int i = (if i < 0 then CHR ''-'' # str_nat (nat (- i)) else str_nat (nat i))"

text \<open>\<^verbatim>\<open>os.path.join\<close> on POSIX, for two and for three components.\<close>

definition path_join :: "string \<Rightarrow> string \<Rightarrow> string" where
  "path_join a b =
     (if startswith b ''/'' then b
      else if a = [] \<or> endswith a ''/'' then a @ b
      else a @ ''/'' @ b)"

definition path_join3 :: "string \<Rightarrow> string \<Rightarrow> string \<Rightarrow> string" where
  "path_join3 a b c = path_join (path_join a b) c"

subsection \<open>Tools\<close>

definition tool_exe :: "string \<Rightarrow> error + string" where
  "tool_exe tool =
     (if tool = ''bowtie2'' \<or> tool = ''bowtie'' \<or> tool = ''hisat'' then Inr (tool @ ''-align-s'')
      else if tool = ''bwa'' then Inr ''bwa''
      else Inl (UnknownTool tool))"

definition tool_ext :: "string \<Rightarrow> error + string" where
  "tool_ext tool =
     (if tool = ''bowtie2'' \<or> tool = ''hisat'' then Inr ''bt2''
      else if tool = ''bowtie'' then Inr ''ebwt''
      else Inl (UnknownTool tool))"

subsection \<open>Slice labels\<close>

definition alphabet :: string where
  "alphabet = ''abcdefghijklmnopqrstuvwxyz''"

text \<open>The first loop of \<^verbatim>\<open>slice_lab\<close>: base-26 digits, least significant first.\<close>

function slice_lab_digits :: "int \<Rightarrow> string \<Rightarrow> string" where
  "slice_lab_digits i ret =
     (if i > 0 then slice_lab_digits (i div 26) ((alphabet ! nat (i mod 26)) # ret) else ret)"
  by pat_completeness auto
termination
  by (relation "measure (\<lambda>(i, ret). nat i)") auto

declare slice_lab_digits.simps [simp del]

text \<open>The second loop: pad with \<open>a\<close> on the left up to three characters.\<close>

function slice_lab_pad :: "string \<Rightarrow> string" where
  "slice_lab_pad ret = (if length ret < 3 then slice_lab_pad (CHR ''a'' # ret) else ret)"
  by pat_completeness auto
termination
  by (relation "measure (\<lambda>ret. 3 - length ret)") auto

declare slice_lab_pad.simps [simp del]

definition slice_lab :: "int \<Rightarrow> error + string" where
  "slice_lab i =
     (let ret = slice_lab_pad (slice_lab_digits i [])
      in if length ret = 3 then Inr ret else Inl AssertionError)"

text \<open>
  The label as the specification words it: the base-26 numeral of \<open>i\<close> over \<open>a..z\<close>, three
  characters, most significant first.
\<close>

definition base26_label :: "int \<Rightarrow> string" where
  "base26_label i =
     [alphabet ! nat (i div 676 mod 26), alphabet ! nat (i div 26 mod 26), alphabet ! nat (i mod 26)]"

subsection \<open>The catalog file\<close>

record config =
  c_name :: string
  c_tool :: string
  c_branch :: string
  c_mp_mt :: int
  c_preproc :: string
  c_args :: string

datatype line_result = Skipped | Yielded config | Raised error

text \<open>
  The header test \<^verbatim>\<open>toks[0] == 'name' and toks[1] == 'tool' and toks[2] == 'branch'\<close>:
  \<^verbatim>\<open>and\<close> stops at the first false operand, and an index past the end of the list raises.
\<close>

definition is_header :: "string list \<Rightarrow> error + bool" where
  "is_header toks =
     (case toks of
        [] \<Rightarrow> Inl IndexError
      | t0 # r0 \<Rightarrow>
          if t0 \<noteq> ''name'' then Inr False
          else (case r0 of
                  [] \<Rightarrow> Inl IndexError
                | t1 # r1 \<Rightarrow>
                    if t1 \<noteq> ''tool'' then Inr False
                    else (case r1 of
                            [] \<Rightarrow> Inl IndexError
                          | t2 # r2 \<Rightarrow> Inr (t2 = ''branch''))))"

text \<open>The body of the loop of \<^verbatim>\<open>get_configs\<close> for one line of the file.\<close>

definition parse_line :: "string \<Rightarrow> line_result" where
  "parse_line ln =
     (let toks = split_on TAB ln in
      case is_header toks of
        Inl e \<Rightarrow> Raised e
      | Inr True \<Rightarrow> Skipped
      | Inr False \<Rightarrow>
          if length toks = 0 \<or> startswith ln ''#'' then Skipped
          else if length toks \<noteq> 6 then Raised (ExpectedSixTokens (length toks) ln)
          else (case py_int (toks ! 3) of
                  None \<Rightarrow> Raised ValueError
                | Some m \<Rightarrow>
                    Yielded \<lparr>c_name = toks ! 0, c_tool = toks ! 1, c_branch = toks ! 2,
                             c_mp_mt = m, c_preproc = toks ! 4, c_args = rstrip (toks ! 5)\<rparr>))"

text \<open>
  The generator run to its end: the entries yielded before the first exception, and that
  exception if there is one.
\<close>

fun get_configs :: "string list \<Rightarrow> config list \<times> error option" where
  "get_configs [] = ([], None)"
| "get_configs (ln # lns) =
     (case parse_line ln of
        Skipped \<Rightarrow> get_configs lns
      | Raised e \<Rightarrow> ([], Some e)
      | Yielded c \<Rightarrow> (case get_configs lns of (cs, r) \<Rightarrow> (c # cs, r)))"

text \<open>
  A header line as the specification words it: the first three tab-separated fields are
  \<^verbatim>\<open>name\<close>, \<^verbatim>\<open>tool\<close> and \<^verbatim>\<open>branch\<close>.
\<close>

definition header_line :: "string \<Rightarrow> bool" where
  "header_line ln =
     (case split_on TAB ln of
        t0 # t1 # t2 # _ \<Rightarrow> t0 = ''name'' \<and> t1 = ''tool'' \<and> t2 = ''branch''
      | _ \<Rightarrow> False)"

subsection \<open>Command-line arguments and the outside world\<close>

record args =
  index :: string
  output_dir :: string
  build_dir :: string
  m1 :: string
  m1b :: string
  m2 :: "string option"
  m2b :: "string option"
  timeout :: nat
  preproc :: "string option"
  force_builds :: bool
  pull :: bool
  sam_output_dir :: bool
  sam_dev_null :: bool
  delete_sam :: bool
  stop_on_fail :: bool
  no_count :: bool
  reads_per_thread :: int

definition pe_str :: "args \<Rightarrow> string" where
  "pe_str a = (if m2 a \<noteq> None then ''pe'' else ''unp'')"

text \<open>\<^verbatim>\<open>'%s' % x\<close> for an optional string: \<^verbatim>\<open>None\<close> prints as its name.\<close>

definition str_opt :: "string option \<Rightarrow> string" where
  "str_opt x = (case x of None \<Rightarrow> ''None'' | Some s \<Rightarrow> s)"

text \<open>
  What the script observes of the file system and of the commands it runs. The probes
  answer for the state in which the script asks: \<open>path_exists\<close> is \<^verbatim>\<open>os.path.exists\<close>,
  \<open>wc_lines\<close> is the count \<^verbatim>\<open>wc -l\<close> prints (\<open>None\<close> when \<^verbatim>\<open>wc\<close> fails, as on a missing
  file), \<open>gz_lines\<close> is the count \<^verbatim>\<open>gzip -dc f | wc -l\<close> prints (the pipeline's status is
  that of \<^verbatim>\<open>wc\<close>, so it never fails), \<open>system\<close> is the status \<^verbatim>\<open>os.system\<close> returns.
\<close>

record probe =
  path_exists :: "string \<Rightarrow> bool"
  wc_lines :: "string \<Rightarrow> int option"
  gz_lines :: "string \<Rightarrow> int"
  system :: "string \<Rightarrow> int"

subsection \<open>Index and reads verification\<close>

definition verify_index :: "probe \<Rightarrow> string \<Rightarrow> string \<Rightarrow> error + bool" where
  "verify_index pr basename tool =
     (if tool = ''bwa'' then
        Inr (list_all (\<lambda>x. path_exists pr (basename @ x))
               [''.amb'', ''.ann'', ''.pac'', ''.bwt'', ''.sa''])
      else
        (case tool_ext tool of
           Inl e \<Rightarrow> Inl e
         | Inr te \<Rightarrow>
             (let ret = list_all (\<lambda>x. path_exists pr (basename @ x @ te))
                          [''.1.'', ''.2.'', ''.3.'', ''.4.'', ''.rev.1.'', ''.rev.2.'']
              in if ret \<and> tool = ''hisat'' then
                   Inr (list_all (\<lambda>x. path_exists pr (basename @ x @ te))
                          [''.5.'', ''.6.'', ''.rev.5.'', ''.rev.6.''])
                 else Inr ret)))"

subsection \<open>Partitioning the reads\<close>

definition wcl :: "probe \<Rightarrow> string \<Rightarrow> error + int" where
  "wcl pr fn =
     (if endswith fn ''.gz'' then Inr (gz_lines pr fn)
      else (case wc_lines pr fn of
              None \<Rightarrow> Inl (CalledProcessError (''wc -l '' @ fn))
            | Some n \<Rightarrow> Inr n))"

text \<open>\<^verbatim>\<open>range(n)\<close> for an integer bound.\<close>

definition py_range :: "int \<Rightarrow> int list" where
  "py_range n = map int [0..<nat n]"

text \<open>The sanity loop of \<^verbatim>\<open>slice_all_fastq\<close> over the indices it still has to visit.\<close>

fun check_slices :: "probe \<Rightarrow> int \<Rightarrow> string \<Rightarrow> int list \<Rightarrow> error option" where
  "check_slices pr reads_per ofn [] = None"
| "check_slices pr reads_per ofn (i # is) =
     (case slice_lab i of
        Inl e \<Rightarrow> Some e
      | Inr lab \<Rightarrow>
          (case wcl pr (ofn @ lab) of
             Inl e \<Rightarrow> Some e
           | Inr actual_nlines \<Rightarrow>
               if actual_nlines \<noteq> reads_per * 4
               then Some (WrongLineCount (reads_per * 4) actual_nlines (ofn @ lab))
               else check_slices pr reads_per ofn is))"

text \<open>The pipeline that \<^verbatim>\<open>slice_all_fastq\<close> runs: feed, head, split.\<close>

definition split_cmd :: "int \<Rightarrow> int \<Rightarrow> string \<Rightarrow> string \<Rightarrow> string" where
  "split_cmd reads_per n ifn ofn =
     (let feed_cmd = (if endswith ifn ''.gz'' then ''gzip -dc '' @ ifn else ''cat '' @ ifn);
          head_cmd = ''head -n '' @ str_int (reads_per * n * 4);
          split_cmd = ''split -l '' @ str_int (reads_per * 4) @ '' -a 3 - '' @ ofn
      in feed_cmd @ '' | '' @ head_cmd @ '' | '' @ split_cmd)"

definition slice_all_fastq :: "probe \<Rightarrow> int \<Rightarrow> int \<Rightarrow> string \<Rightarrow> string \<Rightarrow> error option" where
  "slice_all_fastq pr reads_per n ifn ofn =
     (if str_in ''block'' ifn then Some AssertionError
      else
        (let cmd = split_cmd reads_per n ifn ofn;
             ret = system pr cmd
         in if ret \<noteq> 0 then Some (CommandFailed ret cmd)
            else check_slices pr reads_per ofn (py_range n)))"

definition slice_fastq :: "probe \<Rightarrow> int \<Rightarrow> int \<Rightarrow> string \<Rightarrow> string \<Rightarrow> error option" where
  "slice_fastq pr begin end ifn ofn =
     (let cmd = ''sed -n '' @ [CHR 0x27] @ str_int (begin * 4 + 1) @ '','' @ str_int (end * 4)
                  @ ''p;'' @ str_int (end * 4 + 1) @ ''q'' @ [CHR 0x27] @ '' < '' @ ifn
                  @ '' > '' @ ofn;
          ret = system pr cmd
      in if ret \<noteq> 0 then Some (CommandFailed ret cmd)
         else (case wcl pr ofn of
                 Inl e \<Rightarrow> Some e
               | Inr actual_nlines \<Rightarrow>
                   if actual_nlines \<noteq> (end - begin) * 4
                   then Some (WrongLineCount ((end - begin) * 4) actual_nlines ofn)
                   else None))"

text \<open>
  \<^verbatim>\<open>int(q + 0.01)\<close> for an integer quotient \<open>q\<close>: the conversion truncates towards zero.
\<close>

definition int_plus_eps :: "int \<Rightarrow> int" where
  "int_plus_eps q = (if q < 0 then q + 1 else q)"

text \<open>
  The loop of \<^verbatim>\<open>prepare_reads\<close> that checks that each slice exists and collects the read
  sets, over the indices it still has to visit.
\<close>

fun collect_read_sets :: "probe \<Rightarrow> args \<Rightarrow> string \<Rightarrow> int list \<Rightarrow> error + string list list" where
  "collect_read_sets pr a tmpdir [] = Inr []"
| "collect_read_sets pr a tmpdir (i # is) =
     (case slice_lab i of
        Inl e \<Rightarrow> Inl e
      | Inr lab \<Rightarrow>
          (let fn0 = path_join tmpdir (''1_'' @ lab); fn1 = path_join tmpdir (''2_'' @ lab)
           in if \<not> path_exists pr fn0 then Inl (SplitMissing fn0)
              else if m2 a \<noteq> None \<and> \<not> path_exists pr fn1 then Inl (SplitMissing fn1)
              else (case collect_read_sets pr a tmpdir is of
                      Inl e \<Rightarrow> Inl e
                    | Inr rest \<Rightarrow>
                        Inr ((if m2 a \<noteq> None then [fn0, fn1] else [fn0]) # rest))))"

definition prepare_reads ::
  "probe \<Rightarrow> args \<Rightarrow> int \<Rightarrow> int \<Rightarrow> string \<Rightarrow> bool \<Rightarrow> error + string list list" where
  "prepare_reads pr a nthread mp_mt tmpdir blocked =
     (if mp_mt > 0 then
        (if blocked then Inl BlockedMultiprocessing
         else if nthread mod mp_mt \<noteq> 0 then Inl AssertionError
         else
           (let nprocess = int_plus_eps (nthread div mp_mt) in
            if nprocess = 0 then Inl ZeroDivisionError
            else
              (let nreads_per_process = int_plus_eps ((reads_per_thread a * nthread) div nprocess);
                   prefs = [path_join tmpdir ''1_'', path_join tmpdir ''2_'']
               in case slice_all_fastq pr nreads_per_process nprocess (m1 a) (prefs ! 0) of
                    Some e \<Rightarrow> Inl e
                  | None \<Rightarrow>
                      (case (case m2 a of
                               None \<Rightarrow> None
                             | Some f2 \<Rightarrow> slice_all_fastq pr nreads_per_process nprocess f2 (prefs ! 1)) of
                         Some e \<Rightarrow> Inl e
                       | None \<Rightarrow>
                           (case collect_read_sets pr a tmpdir (py_range nprocess) of
                              Inl e \<Rightarrow> Inl e
                            | Inr read_sets \<Rightarrow>
                                (case slice_lab nprocess of
                                   Inl e \<Rightarrow> Inl e
                                 | Inr lab \<Rightarrow>
                                     (let extra_fn = path_join tmpdir (''1_'' @ lab)
                                      in if path_exists pr extra_fn then Inl (SplitExtra extra_fn)
                                         else Inr read_sets)))))))
      else
        (let rds_1 = path_join tmpdir ''1.fq'';
             rds_2 = path_join tmpdir ''2.fq'';
             nreads = reads_per_thread a * nthread
         in case slice_fastq pr 0 nreads (if blocked then m1b a else m1 a) rds_1 of
              Some e \<Rightarrow> Inl e
            | None \<Rightarrow>
                (case m2 a of
                   None \<Rightarrow> Inr [[rds_1]]
                 | Some f2 \<Rightarrow>
                     (case slice_fastq pr 0 nreads (if blocked then str_opt (m2b a) else f2) rds_2 of
                        Some e \<Rightarrow> Inl e
                      | None \<Rightarrow> Inr [[rds_1, rds_2]]))))"

subsection \<open>Effects\<close>

text \<open>
  What the script does to the outside world, in the order in which it does it. Calls that
  only read (\<^verbatim>\<open>os.path.exists\<close>, \<^verbatim>\<open>wc\<close>) and the progress messages leave no event.
  \<^verbatim>\<open>os.remove\<close>, \<^verbatim>\<open>shutil.rmtree\<close> and \<^verbatim>\<open>mkdir_quiet\<close> are taken to succeed.
\<close>

datatype event =
    Mkdir string                       \<comment> \<open>\<^verbatim>\<open>mkdir_quiet(dir)\<close>\<close>
  | Rmtree string                      \<comment> \<open>\<^verbatim>\<open>shutil.rmtree(dir)\<close>\<close>
  | Remove string                      \<comment> \<open>\<^verbatim>\<open>os.remove(file)\<close>\<close>
  | System string                      \<comment> \<open>\<^verbatim>\<open>os.system(command)\<close>\<close>
  | VerifyIndex string string          \<comment> \<open>\<^verbatim>\<open>verify_index(basename, tool)\<close>\<close>
  | PrepareReads int int string bool   \<comment> \<open>\<^verbatim>\<open>prepare_reads(args, nthreads, mp_mt, dir, blocked)\<close>\<close>
  | OpenW string                       \<comment> \<open>\<^verbatim>\<open>open(file, 'w')\<close>\<close>
  | Popen "string list" string         \<comment> \<open>a telemetry process and the file it writes\<close>
  | Kill "string list"                 \<comment> \<open>\<^verbatim>\<open>kill()\<close> of a telemetry process\<close>
  | Start "string list" string string  \<comment> \<open>\<^verbatim>\<open>proc.start()\<close>: command, stdout sink, stderr sink\<close>
  | StillAlive nat                     \<comment> \<open>worker \<open>i\<close> outlived its join; \<^verbatim>\<open>done_val\<close> is set\<close>
  | Sigterm nat                        \<comment> \<open>the wrapper of worker \<open>i\<close> sends SIGTERM to its child\<close>

definition touch :: "string \<Rightarrow> event" where
  "touch fn = System (''touch '' @ fn)"

subsection \<open>The process supervisor\<close>

text \<open>
  A worker is a \<^verbatim>\<open>multiprocessing.Process\<close> that runs the wrapper \<^verbatim>\<open>worker(done_val)\<close>: it
  opens the two sinks, starts the aligner and polls it once a second, and when it sees
  \<^verbatim>\<open>done_val\<close> set it sends SIGTERM to the aligner and returns. The outside world fixes,
  per worker, how many seconds the aligner runs when left alone and whether the wrapper
  manages to open its sinks and start the aligner. Time is counted in whole seconds from
  the moment the group is started.
\<close>

record worker =
  run_time :: nat
  spawn_ok :: bool

text \<open>When the wrapper of an undisturbed worker returns.\<close>

definition wrapper_end :: "worker \<Rightarrow> nat" where
  "wrapper_end w = (if spawn_ok w then run_time w else 0)"

text \<open>
  \<^verbatim>\<open>proc.exitcode\<close> of a worker that has ended. The wrapper never reads the aligner's
  status: it returns normally (exit code 0) whether the aligner ended by itself or by the
  signal, and ends with exit code 1 when an exception escaped it.
\<close>

definition exitcode :: "worker \<Rightarrow> int" where
  "exitcode w = (if spawn_ok w then 0 else 1)"

record supervisor =
  clock :: nat
  done_val :: int
  ends :: "nat list"
  sup_log :: "event list"
  exitlevels :: "int option list"

text \<open>
  One round of the loop \<^verbatim>\<open>for proc in procs: proc.join(args.timeout) ...\<close> for worker \<open>i\<close>.
  If the worker ends within the timeout the join returns then. Otherwise the join gives
  up after the timeout, the flag is set, every wrapper whose aligner still runs sees it at
  its next poll and signals its aligner, and all workers are joined without a bound.
\<close>

definition join_one :: "nat \<Rightarrow> worker list \<Rightarrow> supervisor \<Rightarrow> nat \<Rightarrow> supervisor" where
  "join_one tmo procs s i =
     (if ends s ! i \<le> clock s + tmo then
        s\<lparr>clock := max (clock s) (ends s ! i),
          exitlevels := exitlevels s @ [Some (exitcode (procs ! i))]\<rparr>
      else
        (let t = clock s + tmo;
             victims = filter (\<lambda>j. t < ends s ! j) [0..<length (ends s)]
         in s\<lparr>clock := t + 1,
              done_val := 1,
              ends := map (\<lambda>e. if t < e then t + 1 else e) (ends s),
              sup_log := sup_log s @ [StillAlive i] @ map Sigterm victims,
              exitlevels := exitlevels s @ [None]\<rparr>))"

definition sup_init :: "worker list \<Rightarrow> supervisor" where
  "sup_init procs =
     \<lparr>clock = 0, done_val = 0, ends = map wrapper_end procs, sup_log = [], exitlevels = []\<rparr>"

definition supervise :: "nat \<Rightarrow> worker list \<Rightarrow> supervisor" where
  "supervise tmo procs = foldl (join_one tmo procs) (sup_init procs) [0..<length procs]"

text \<open>
  What holds of the supervisor after the first \<open>k\<close> rounds of its loop. As long as no join
  has timed out, nothing was signalled and every worker joined so far reports its exit
  code. After a join has timed out, for worker \<open>i\<close>, every worker has ended, worker \<open>i\<close>
  is the only one recorded as still alive and the only one that reports no exit code, and
  each worker was signalled or ended by itself.
\<close>

definition sup_inv :: "worker list \<Rightarrow> nat \<Rightarrow> supervisor \<Rightarrow> bool" where
  "sup_inv procs k s \<longleftrightarrow>
     length (ends s) = length procs \<and> length (exitlevels s) = k
     \<and> (\<forall>j<k. ends s ! j \<le> clock s)
     \<and> (if done_val s = 0
        then sup_log s = [] \<and> ends s = map wrapper_end procs
             \<and> (\<forall>j<k. exitlevels s ! j = Some (exitcode (procs ! j)))
        else done_val s = 1 \<and> (\<forall>j<length procs. ends s ! j \<le> clock s)
             \<and> (\<exists>i<k. (\<forall>j<k. exitlevels s ! j = (if j = i then None else Some (exitcode (procs ! j))))
                       \<and> (\<forall>j. StillAlive j \<in> set (sup_log s) \<longleftrightarrow> j = i)
                       \<and> (\<forall>j<length procs. Sigterm j \<in> set (sup_log s)
                                \<or> ends s ! j = wrapper_end (procs ! j))))"



datatype outcome = SUCCEED | FAIL | TIME_OUT

definition classify :: "int option list \<Rightarrow> outcome" where
  "classify levels =
     (if list_ex (\<lambda>x. x = None) levels then TIME_OUT
      else if list_ex (\<lambda>x. x \<noteq> Some 0) levels then FAIL
      else SUCCEED)"

definition outcome_ext :: "outcome \<Rightarrow> string" where
  "outcome_ext oc = (case oc of SUCCEED \<Rightarrow> ''.SUCCEED'' | FAIL \<Rightarrow> ''.FAIL'' | TIME_OUT \<Rightarrow> ''.TIME_OUT'')"

subsection \<open>One run attempt\<close>

text \<open>\<^verbatim>\<open>s.split()\<close>: the maximal runs of characters that are not whitespace.\<close>

fun split_ws :: "string \<Rightarrow> string list" where
  "split_ws [] = []"
| "split_ws (c # cs) =
     (if is_space c then split_ws cs
      else (case split_ws cs of
              [] \<Rightarrow> [[c]]
            | w # ws \<Rightarrow> if cs \<noteq> [] \<and> is_space (hd cs) then [c] # w # ws else (c # w) # ws))"

definition nth_err :: "'a list \<Rightarrow> nat \<Rightarrow> error + 'a" where
  "nth_err xs i = (if i < length xs then Inr (xs ! i) else Inl IndexError)"

definition run_name_of :: "string \<Rightarrow> string \<Rightarrow> int \<Rightarrow> int \<Rightarrow> int \<Rightarrow> int \<Rightarrow> string" where
  "run_name_of nm pe mp_mt i nthreads idx_rev =
     nm @ ''_'' @ pe @ ''_'' @ str_int mp_mt @ ''_'' @ str_int i @ ''_'' @ str_int nthreads
       @ ''_'' @ str_int idx_rev"

definition dev_null :: string where
  "dev_null = ''/dev/null''"

text \<open>The three lists of sinks of one attempt, one entry per worker.\<close>

definition stdout_ofns :: "args \<Rightarrow> string \<Rightarrow> string list \<Rightarrow> int \<Rightarrow> string list" where
  "stdout_ofns a odir run_names idx_rev =
     (if idx_rev = 1 then map (\<lambda>runname. path_join odir (runname @ ''.out'')) run_names
      else map (\<lambda>_. dev_null) run_names)"

definition stderr_ofns :: "args \<Rightarrow> string \<Rightarrow> string list \<Rightarrow> int \<Rightarrow> string list" where
  "stderr_ofns a odir run_names idx_rev =
     (if idx_rev = 1 then map (\<lambda>runname. path_join odir (runname @ ''.err'')) run_names
      else map (\<lambda>_. dev_null) run_names)"

definition sam_dir :: "string \<Rightarrow> string \<Rightarrow> string \<Rightarrow> string \<Rightarrow> string" where
  "sam_dir samdir nm pe runname = path_join (path_join3 samdir nm pe) runname"

definition sam_ofns :: "args \<Rightarrow> string \<Rightarrow> string \<Rightarrow> string \<Rightarrow> string list \<Rightarrow> int \<Rightarrow> string list" where
  "sam_ofns a odir tmpdir nm run_names idx_rev =
     (if idx_rev = 1 \<and> \<not> sam_dev_null a then
        (let samdir = (if sam_output_dir a then odir else tmpdir)
         in map (\<lambda>runname. path_join (sam_dir samdir nm (pe_str a) runname) ''out.sam'') run_names)
      else map (\<lambda>_. dev_null) run_names)"

definition sam_mkdirs :: "args \<Rightarrow> string \<Rightarrow> string \<Rightarrow> string \<Rightarrow> string list \<Rightarrow> int \<Rightarrow> event list" where
  "sam_mkdirs a odir tmpdir nm run_names idx_rev =
     (if idx_rev = 1 \<and> \<not> sam_dev_null a then
        (let samdir = (if sam_output_dir a then odir else tmpdir)
         in map (\<lambda>runname. Mkdir (sam_dir samdir nm (pe_str a) runname)) run_names)
      else [])"

text \<open>
  The command line of a worker: for \<^verbatim>\<open>bwa\<close>, and for the other tools, where the file
  that receives the alignments is named after \<^verbatim>\<open>-S\<close>.
\<close>

definition bwa_cmd :: "args \<Rightarrow> config \<Rightarrow> string \<Rightarrow> string \<Rightarrow> int \<Rightarrow> string \<Rightarrow> string \<Rightarrow> string list" where
  "bwa_cmd a c bdir exe nthreads_per_process r0 r1 =
     [bdir @ ''/'' @ exe, ''mem'', ''-t'', str_int nthreads_per_process]
     @ (if c_args c \<noteq> [] then split_ws (c_args c) else [])
     @ [index a, r0]
     @ (if m2 a \<noteq> None then [r1] else [])"

definition aligner_cmd ::
  "args \<Rightarrow> config \<Rightarrow> string \<Rightarrow> string \<Rightarrow> int \<Rightarrow> string \<Rightarrow> string \<Rightarrow> string \<Rightarrow> string list" where
  "aligner_cmd a c bdir exe nthreads_per_process r0 r1 sam_ofn =
     ([bdir @ ''/'' @ exe, ''-p'', str_int nthreads_per_process]
      @ (if c_args c \<noteq> [] then split_ws (c_args c) else [])
      @ (if c_tool c = ''bowtie2'' \<or> c_tool c = ''hisat'' then [''-x''] else [])
      @ [index a, ''-t'']
      @ (if c_mp_mt c > 0 then [''--mm''] else [])
      @ (if m2 a \<noteq> None then [''-1'', r0, ''-2'', r1]
         else if c_tool c = ''bowtie2'' \<or> c_tool c = ''hisat'' then [''-U'', r0]
         else [r0]))
     @ [''-S'', sam_ofn]"

text \<open>
  A worker with the sinks handed to \<^verbatim>\<open>spawn_worker\<close>: \<^verbatim>\<open>bwa\<close> writes the alignments
  to its standard output, which is sent to the alignment file; the other tools get the
  alignment file on the command line and their standard output goes to \<open>out\<close>.
\<close>

definition start_worker ::
  "args \<Rightarrow> config \<Rightarrow> string \<Rightarrow> string \<Rightarrow> int \<Rightarrow> string \<Rightarrow> string \<Rightarrow> string \<Rightarrow> string \<Rightarrow> string
     \<Rightarrow> event" where
  "start_worker a c bdir exe nthreads_per_process r0 r1 out err sam_ofn =
     (if c_tool c = ''bwa''
      then Start (bwa_cmd a c bdir exe nthreads_per_process r0 r1) sam_ofn err
      else Start (aligner_cmd a c bdir exe nthreads_per_process r0 r1 sam_ofn) out err)"

text \<open>
  Worker \<open>i\<close> of an attempt; the reads come from the \<open>i\<close>-th read set, and an index past
  the end of a list raises.
\<close>

definition build_cmd ::
  "args \<Rightarrow> config \<Rightarrow> string \<Rightarrow> int \<Rightarrow> string list list \<Rightarrow> string list \<Rightarrow> string list
     \<Rightarrow> string list \<Rightarrow> nat \<Rightarrow> error + event" where
  "build_cmd a c bdir nthreads_per_process read_set outs errs sams i =
     (case tool_exe (c_tool c) of
        Inl e \<Rightarrow> Inl e
      | Inr exe \<Rightarrow>
          (case nth_err read_set i of
             Inl e \<Rightarrow> Inl e
           | Inr rs \<Rightarrow>
               (case nth_err rs 0 of
                  Inl e \<Rightarrow> Inl e
                | Inr r0 \<Rightarrow>
                    (case (if m2 a \<noteq> None then nth_err rs 1 else Inr []) of
                       Inl e \<Rightarrow> Inl e
                     | Inr r1 \<Rightarrow>
                         Inr (start_worker a c bdir exe nthreads_per_process r0 r1
                                (outs ! i) (errs ! i) (sams ! i))))))"

fun build_cmds ::
  "args \<Rightarrow> config \<Rightarrow> string \<Rightarrow> int \<Rightarrow> string list list \<Rightarrow> string list \<Rightarrow> string list
     \<Rightarrow> string list \<Rightarrow> nat list \<Rightarrow> error + event list" where
  "build_cmds a c bdir ntpp read_set outs errs sams [] = Inr []"
| "build_cmds a c bdir ntpp read_set outs errs sams (i # is) =
     (case build_cmd a c bdir ntpp read_set outs errs sams i of
        Inl e \<Rightarrow> Inl e
      | Inr p \<Rightarrow>
          (case build_cmds a c bdir ntpp read_set outs errs sams is of
             Inl e \<Rightarrow> Inl e
           | Inr ps \<Rightarrow> Inr (p # ps)))"

text \<open>
  The part of the outside world a sweep meets: the probes, the answer of \<^verbatim>\<open>prepare_reads\<close> to a
  call, how each started worker behaves, and which telemetry tools are installed.
\<close>

record world =
  fs :: probe
  partitioner :: "int \<Rightarrow> int \<Rightarrow> string \<Rightarrow> bool \<Rightarrow> error + string list list"
  behaviour :: "event \<Rightarrow> worker"
  iostat_x :: bool
  have_iostat :: bool
  have_top :: bool
  darwin :: bool

definition telemetry_start :: "world \<Rightarrow> string \<Rightarrow> string \<Rightarrow> event list" where
  "telemetry_start w iostat_fn top_fn =
     [OpenW top_fn, OpenW iostat_fn]
     @ (if have_iostat w
        then [Popen ([''iostat''] @ (if iostat_x w then [''-x''] else []) @ [''2'']) iostat_fn] else [])
     @ (if have_top w
        then [Popen (if darwin w then [''top'', ''-l'', ''0'', ''-s'', ''2'']
                     else [''top'', ''-b'', ''-d'', ''2'']) top_fn] else [])"

definition telemetry_kill :: "world \<Rightarrow> event list" where
  "telemetry_kill w =
     (if have_iostat w
      then [Kill ([''iostat''] @ (if iostat_x w then [''-x''] else []) @ [''2''])] else [])
     @ (if have_top w
        then [Kill (if darwin w then [''top'', ''-l'', ''0'', ''-s'', ''2'']
                    else [''top'', ''-b'', ''-d'', ''2''])] else [])"

text \<open>The output directory of an entry, and the run names of an attempt, one per worker.\<close>

definition entry_odir :: "args \<Rightarrow> config \<Rightarrow> string" where
  "entry_odir a c = path_join3 (output_dir a) (pe_str a) (c_name c)"

definition run_names_of :: "args \<Rightarrow> config \<Rightarrow> int \<Rightarrow> int \<Rightarrow> int \<Rightarrow> string list" where
  "run_names_of a c nthreads nprocess idx_rev =
     map (\<lambda>i. run_name_of (c_name c) (pe_str a) (c_mp_mt c) i nthreads idx_rev) (py_range nprocess)"

text \<open>The workers of an attempt: the two loops that fill \<^verbatim>\<open>procs\<close>.\<close>

definition attempt_procs ::
  "args \<Rightarrow> string \<Rightarrow> config \<Rightarrow> int \<Rightarrow> int \<Rightarrow> int \<Rightarrow> string list list \<Rightarrow> int \<Rightarrow> error + event list" where
  "attempt_procs a tmpdir c nthreads nprocess nthreads_per_process read_set idx_rev =
     (let odir = entry_odir a c;
          bdir = path_join3 (build_dir a) (pe_str a) (c_name c);
          run_names = run_names_of a c nthreads nprocess idx_rev
      in build_cmds a c bdir nthreads_per_process read_set
           (stdout_ofns a odir run_names idx_rev) (stderr_ofns a odir run_names idx_rev)
           (sam_ofns a odir tmpdir (c_name c) run_names idx_rev) [0..<nat nprocess])"

text \<open>
  The body of \<^verbatim>\<open>for idx in range(redo)\<close>: the events of the attempt, and the exception
  that ended it if one did.
\<close>

definition run_attempt ::
  "world \<Rightarrow> args \<Rightarrow> string \<Rightarrow> config \<Rightarrow> int \<Rightarrow> int \<Rightarrow> int \<Rightarrow> string list list \<Rightarrow> int \<Rightarrow> int
     \<Rightarrow> event list \<times> error option" where
  "run_attempt w a tmpdir c nthreads nprocess nthreads_per_process read_set redo idx =
     (let idx_rev = redo - idx;
          odir = entry_odir a c;
          run_names = run_names_of a c nthreads nprocess idx_rev;
          run_name = hd run_names;
          sams = sam_ofns a odir tmpdir (c_name c) run_names idx_rev;
          dirs = sam_mkdirs a odir tmpdir (c_name c) run_names idx_rev
      in case attempt_procs a tmpdir c nthreads nprocess nthreads_per_process read_set idx_rev of
           Inl e \<Rightarrow> (dirs, Some e)
         | Inr procs \<Rightarrow>
             (let sup = supervise (timeout a) (map (behaviour w) procs);
                  levels = exitlevels sup;
                  ran = dirs
                        @ telemetry_start w (path_join odir (run_name @ ''.iostat''))
                            (path_join odir (run_name @ ''.top''))
                        @ procs @ sup_log sup @ telemetry_kill w
                        @ [touch (path_join odir (run_name @ ''.JOIN'')),
                           touch (path_join odir (run_name @ outcome_ext (classify levels)))]
              in if classify levels = FAIL \<and> stop_on_fail a then (ran, Some (SubprocessFailed levels))
                 else if delete_sam a
                 then (ran @ map Remove (filter (\<lambda>sam_ofn. sam_ofn \<noteq> dev_null) sams), None)
                 else (ran, None)))"

text \<open>The attempts \<open>idx, idx + 1, ...\<close> of one pair, up to the first exception.\<close>

fun run_attempts ::
  "world \<Rightarrow> args \<Rightarrow> string \<Rightarrow> config \<Rightarrow> int \<Rightarrow> int \<Rightarrow> int \<Rightarrow> string list list \<Rightarrow> int \<Rightarrow> int list
     \<Rightarrow> event list \<times> error option" where
  "run_attempts w a tmpdir c nthreads nprocess ntpp read_set redo [] = ([], None)"
| "run_attempts w a tmpdir c nthreads nprocess ntpp read_set redo (idx # idxs) =
     (case run_attempt w a tmpdir c nthreads nprocess ntpp read_set redo idx of
        (evs, Some e) \<Rightarrow> (evs, Some e)
      | (evs, None) \<Rightarrow>
          (case run_attempts w a tmpdir c nthreads nprocess ntpp read_set redo idxs of
             (evs', r) \<Rightarrow> (evs @ evs', r)))"

subsection \<open>The sweep controller\<close>

text \<open>
  The second half of \<^verbatim>\<open>go\<close>: the loops over the thread counts and over the catalog, and
  the purge after them. The variables the loops share are the fields of the state; the
  events so far are kept with them, so that they are known also when an exception ends
  the sweep.
\<close>

record sweep_state =
  indexes_verified :: "string set"
  read_set :: "string list list option"
  last_mp_mt :: "int option"
  last_blocked :: bool
  trace :: "event list"

text \<open>The purge loop: \<^verbatim>\<open>os.remove\<close> of every file of every read list.\<close>

definition purge :: "string list list option \<Rightarrow> event list" where
  "purge rs = (case rs of None \<Rightarrow> [] | Some read_lists \<Rightarrow> map Remove (concat read_lists))"

text \<open>The branch taken when the regime differs from the last one: purge, then prepare.\<close>

definition enter_regime ::
  "world \<Rightarrow> args \<Rightarrow> string \<Rightarrow> int \<Rightarrow> config \<Rightarrow> bool \<Rightarrow> sweep_state \<Rightarrow> sweep_state \<times> error option" where
  "enter_regime w a tmpdir nthreads c blocked s =
     (let dir = path_join3 tmpdir (c_name c) (pe_str a);
          s1 = s\<lparr>trace := trace s @ purge (read_set s)
                       @ [Mkdir dir, PrepareReads nthreads (c_mp_mt c) dir blocked]\<rparr>
      in case partitioner w nthreads (c_mp_mt c) dir blocked of
           Inl e \<Rightarrow> (s1, Some e)
         | Inr rs \<Rightarrow> (s1\<lparr>read_set := Some rs, last_mp_mt := Some (c_mp_mt c)\<rparr>, None))"

text \<open>The index check at the head of the loop body; the value it returns is dropped.\<close>

definition check_index :: "world \<Rightarrow> args \<Rightarrow> config \<Rightarrow> sweep_state \<Rightarrow> sweep_state \<times> error option" where
  "check_index w a c s =
     (let s1 = s\<lparr>trace := trace s @ [VerifyIndex (index a) (c_tool c)]\<rparr>
      in case verify_index (fs w) (index a) (c_tool c) of
           Inl e \<Rightarrow> (s1, Some e)
         | Inr _ \<Rightarrow> (s1\<lparr>indexes_verified := insert (c_tool c) (indexes_verified s1)\<rparr>, None))"

text \<open>The runs of one pair, from \<^verbatim>\<open>nprocess = ...\<close> to the end of the loop body.\<close>

definition run_pair ::
  "world \<Rightarrow> args \<Rightarrow> string \<Rightarrow> int \<Rightarrow> config \<Rightarrow> int \<Rightarrow> sweep_state \<Rightarrow> sweep_state \<times> error option" where
  "run_pair w a tmpdir nthreads c redo s =
     (let nprocess = (if c_mp_mt c = 0 then 1 else nthreads div c_mp_mt c);
          nthreads_per_process = (if c_mp_mt c = 0 then nthreads else c_mp_mt c)
      in if \<not> nprocess \<ge> 1 then (s, Some AssertionError)
         else (case read_set s of
                 None \<Rightarrow> (s, Some TypeError)
               | Some rs \<Rightarrow>
                   (case run_attempts w a tmpdir c nthreads nprocess nthreads_per_process rs redo
                           (py_range redo) of
                      (evs, r) \<Rightarrow> (s\<lparr>trace := trace s @ evs\<rparr>, r))))"

text \<open>The three tests of the loop body.\<close>

definition skipped :: "int \<Rightarrow> config \<Rightarrow> bool" where
  "skipped nthreads c = (c_mp_mt c \<noteq> 0 \<and> nthreads mod c_mp_mt c \<noteq> 0)"

definition is_blocked :: "config \<Rightarrow> bool" where
  "is_blocked c = str_in ''block-bytes'' (c_args c)"

definition regime_changed :: "config \<Rightarrow> sweep_state \<Rightarrow> bool" where
  "regime_changed c s =
     (last_mp_mt s = None \<or> Some (c_mp_mt c) \<noteq> last_mp_mt s \<or> is_blocked c \<noteq> last_blocked s)"

text \<open>The head of the loop body: the output directory and the index check.\<close>

definition entry_head :: "world \<Rightarrow> args \<Rightarrow> config \<Rightarrow> sweep_state \<Rightarrow> sweep_state \<times> error option" where
  "entry_head w a c s =
     (let s0 = (if path_exists (fs w) (entry_odir a c) then s
                else s\<lparr>trace := trace s @ [Mkdir (entry_odir a c)]\<rparr>)
      in if c_tool c \<notin> indexes_verified s then check_index w a c s0 else (s0, None))"

text \<open>The body of the loop over the catalog, for one thread count and one entry.\<close>

definition sweep_entry ::
  "world \<Rightarrow> args \<Rightarrow> string \<Rightarrow> int \<Rightarrow> config \<Rightarrow> sweep_state \<Rightarrow> sweep_state \<times> error option" where
  "sweep_entry w a tmpdir nthreads c s =
     (case entry_head w a c s of
        (s1, Some e) \<Rightarrow> (s1, Some e)
      | (s1, None) \<Rightarrow>
          if skipped nthreads c then (s1, None)
          else
            (case (if regime_changed c s1 then enter_regime w a tmpdir nthreads c (is_blocked c) s1
                   else (s1, None)) of
               (s2, Some e) \<Rightarrow> (s2, Some e)
             | (s2, None) \<Rightarrow>
                 run_pair w a tmpdir nthreads c
                   (if c_tool c \<notin> indexes_verified s \<or> regime_changed c s1 then 2 else 1)
                   (s2\<lparr>last_blocked := is_blocked c\<rparr>)))"

fun sweep_configs ::
  "world \<Rightarrow> args \<Rightarrow> string \<Rightarrow> int \<Rightarrow> config list \<Rightarrow> sweep_state \<Rightarrow> sweep_state \<times> error option" where
  "sweep_configs w a tmpdir nthreads [] s = (s, None)"
| "sweep_configs w a tmpdir nthreads (c # cs) s =
     (case sweep_entry w a tmpdir nthreads c s of
        (s', Some e) \<Rightarrow> (s', Some e)
      | (s', None) \<Rightarrow> sweep_configs w a tmpdir nthreads cs s')"

fun sweep_series ::
  "world \<Rightarrow> args \<Rightarrow> string \<Rightarrow> config list \<Rightarrow> int list \<Rightarrow> sweep_state \<Rightarrow> sweep_state \<times> error option" where
  "sweep_series w a tmpdir cfgs [] s = (s, None)"
| "sweep_series w a tmpdir cfgs (nthreads # series) s =
     (case sweep_configs w a tmpdir nthreads cfgs (s\<lparr>last_mp_mt := None, last_blocked := False\<rparr>) of
        (s', Some e) \<Rightarrow> (s', Some e)
      | (s', None) \<Rightarrow> sweep_series w a tmpdir cfgs series s')"

definition sweep_init :: sweep_state where
  "sweep_init = \<lparr>indexes_verified = {}, read_set = None, last_mp_mt = None,
                 last_blocked = False, trace = []\<rparr>"

text \<open>The whole sweep: everything it did, and the exception that ended it if one did.\<close>

definition sweep ::
  "world \<Rightarrow> args \<Rightarrow> string \<Rightarrow> config list \<Rightarrow> int list \<Rightarrow> event list \<times> error option" where
  "sweep w a tmpdir cfgs series =
     (case sweep_series w a tmpdir cfgs series sweep_init of
        (s, Some e) \<Rightarrow> (trace s, Some e)
      | (s, None) \<Rightarrow> (trace s @ purge (read_set s), None))"

text \<open>
  The read set of a state is sized for the thread count \<open>n\<close>: either no regime is active,
  so that the next entry that is not skipped prepares its reads anew, or the read set is
  what the partitioner returned for \<open>n\<close> threads.
\<close>

definition sized_for :: "world \<Rightarrow> args \<Rightarrow> string \<Rightarrow> int \<Rightarrow> sweep_state \<Rightarrow> bool" where
  "sized_for w a tmpdir n s \<longleftrightarrow>
     last_mp_mt s = None
     \<or> (\<exists>c b rs. read_set s = Some rs
            \<and> partitioner w n (c_mp_mt c) (path_join3 tmpdir (c_name c) (pe_str a)) b = Inr rs)"

subsection \<open>The build artifact resolver\<close>

definition repos :: "string \<Rightarrow> string option" where
  "repos = map_of
     [(''bowtie'', ''https://github.com/BenLangmead/bowtie.git''),
      (''bowtie2'', ''https://github.com/BenLangmead/bowtie2.git''),
      (''hisat'', ''https://github.com/BenLangmead/hisat.git''),
      (''bwa'', ''https://github.com/BenLangmead/bwa.git'')]"

definition is_alnum :: "char \<Rightarrow> bool" where
  "is_alnum c =
     (c \<in> set ''0123456789abcdefghijklmnopqrstuvwxyzABCDEFGHIJKLMNOPQRSTUVWXYZ'')"

text \<open>\<^verbatim>\<open>os.path.dirname\<close> on POSIX.\<close>

definition dirname :: "string \<Rightarrow> string" where
  "dirname p =
     (let head = rev (dropWhile (\<lambda>c. c \<noteq> CHR ''/'') (rev p))
      in if head \<noteq> [] \<and> \<not> list_all (\<lambda>c. c = CHR ''/'') head
         then rev (dropWhile (\<lambda>c. c = CHR ''/'') (rev head))
         else head)"

definition make_cmd :: "string \<Rightarrow> string \<Rightarrow> string \<Rightarrow> string" where
  "make_cmd bdir flags exe = ''make -e -C '' @ bdir @ '' '' @ flags @ '' '' @ exe"

definition make_tool_version ::
  "probe \<Rightarrow> string \<Rightarrow> string \<Rightarrow> string \<Rightarrow> string \<Rightarrow> event list \<times> error option" where
  "make_tool_version pr nm tool flags bdir =
     (case tool_exe tool of
        Inl e \<Rightarrow> ([], Some e)
      | Inr exe \<Rightarrow>
          ([System (make_cmd bdir flags exe)],
           if system pr (make_cmd bdir flags exe) \<noteq> 0 then Some (MakeFailed tool nm) else None))"

definition clone_cmd :: "string \<Rightarrow> string \<Rightarrow> string \<Rightarrow> string" where
  "clone_cmd url br bdir =
     (if length br = 40 \<and> list_all is_alnum br
      then ''git clone '' @ url @ '' -- '' @ bdir @ '' && cd '' @ bdir @ '' && git reset --hard '' @ br
      else ''git clone '' @ url @ '' -b '' @ br @ '' -- '' @ bdir)"

definition install_tool_version ::
  "probe \<Rightarrow> string \<Rightarrow> string \<Rightarrow> string \<Rightarrow> string \<Rightarrow> string \<Rightarrow> string \<Rightarrow> event list \<times> error option" where
  "install_tool_version pr nm tool url br flags bdir =
     (if system pr (clone_cmd url br bdir) \<noteq> 0
      then ([System (clone_cmd url br bdir)], Some (CloneFailed tool nm))
      else (case make_tool_version pr nm tool flags bdir of
              (evs, r) \<Rightarrow> (System (clone_cmd url br bdir) # evs, r)))"

text \<open>
  The variables of the first loop of \<^verbatim>\<open>go\<close>. \<open>present\<close> says which artifact directories
  exist: it starts as the file system has them and follows what the loop removes and
  creates.
\<close>

record build_state =
  last_name :: string
  last_tool :: string
  last_branch :: string
  last_preproc :: string
  last_build_dir :: string
  npull :: nat
  nbuild :: nat
  ncopy :: nat
  nlink :: nat
  present :: "string \<Rightarrow> bool"
  performed :: "event list"

datatype action = Pull | Link | Copy | Build | Nothing

text \<open>The \<^verbatim>\<open>if ... elif\<close> chain that picks what is to be done for an entry.\<close>

definition choose_action ::
  "args \<Rightarrow> bool \<Rightarrow> bool \<Rightarrow> string \<Rightarrow> string \<Rightarrow> string \<Rightarrow> build_state \<Rightarrow> action" where
  "choose_action a bld pl tool br flags s =
     (if pl \<and> pull a then Pull
      else if bld \<and> tool = last_tool s \<and> br = last_branch s \<and> flags = last_preproc s then Link
      else if bld \<and> tool = last_tool s \<and> br = last_branch s then Copy
      else if bld then Build
      else Nothing)"

text \<open>What each action does, and the exception it may end with.\<close>

definition perform ::
  "probe \<Rightarrow> action \<Rightarrow> string \<Rightarrow> string \<Rightarrow> string \<Rightarrow> string \<Rightarrow> string \<Rightarrow> build_state
     \<Rightarrow> event list \<times> error option" where
  "perform pr act nm tool br flags bdir s =
     (case act of
        Pull \<Rightarrow>
          (case make_tool_version pr nm tool flags bdir of
             (evs, r) \<Rightarrow> (System (''cd '' @ bdir @ '' && git pull'') # evs, r))
      | Link \<Rightarrow>
          ([Mkdir (dirname bdir), System (''ln -s -f '' @ last_name s @ '' '' @ bdir)], None)
      | Copy \<Rightarrow>
          (case tool_exe tool of
             Inl e \<Rightarrow>
               ([Mkdir (dirname bdir), System (''cp -r '' @ last_build_dir s @ '' '' @ bdir)], Some e)
           | Inr exe \<Rightarrow>
               (case make_tool_version pr nm tool flags bdir of
                  (evs, r) \<Rightarrow>
                    ([Mkdir (dirname bdir), System (''cp -r '' @ last_build_dir s @ '' '' @ bdir),
                      Remove (path_join bdir exe)] @ evs, r)))
      | Build \<Rightarrow>
          (case repos tool of
             None \<Rightarrow> ([], Some KeyError)
           | Some url \<Rightarrow> install_tool_version pr nm tool url br flags bdir)
      | Nothing \<Rightarrow> ([], None))"

definition count_action :: "action \<Rightarrow> build_state \<Rightarrow> build_state" where
  "count_action act s =
     (case act of
        Pull \<Rightarrow> s\<lparr>npull := npull s + 1\<rparr>
      | Link \<Rightarrow> s\<lparr>nlink := nlink s + 1\<rparr>
      | Copy \<Rightarrow> s\<lparr>ncopy := ncopy s + 1\<rparr>
      | Build \<Rightarrow> s\<lparr>nbuild := nbuild s + 1\<rparr>
      | Nothing \<Rightarrow> s)"

text \<open>The body of the first loop of \<^verbatim>\<open>go\<close> for one catalog entry.\<close>

definition resolve_entry ::
  "probe \<Rightarrow> args \<Rightarrow> config \<Rightarrow> build_state \<Rightarrow> build_state \<times> error option" where
  "resolve_entry pr a c s =
     (let flags = (case preproc a of None \<Rightarrow> c_preproc c | Some p \<Rightarrow> c_preproc c @ '' '' @ p)
      in if c_name c = ''name'' \<and> c_branch c = ''branch'' then (s, None)
         else
           (let s1 = (if length (last_tool s) = 0 then s\<lparr>last_tool := c_tool c\<rparr> else s)
            in if c_tool c \<noteq> last_tool s1 then (s1, Some AssertionError)
               else
                 (let bdir = path_join3 (build_dir a) (pe_str a) (c_name c);
                      forced = (present s1 bdir \<and> force_builds a);
                      bld = (forced \<or> \<not> present s1 bdir);
                      pl = (\<not> forced \<and> present s1 bdir);
                      s2 = (if forced then s1\<lparr>present := (present s1)(bdir := False),
                                               performed := performed s1 @ [Rmtree bdir]\<rparr> else s1);
                      act = choose_action a bld pl (c_tool c) (c_branch c) flags s2;
                      s3 = count_action act s2
                  in case perform pr act (c_name c) (c_tool c) (c_branch c) flags bdir s3 of
                       (evs, Some e) \<Rightarrow> (s3\<lparr>performed := performed s3 @ evs\<rparr>, Some e)
                     | (evs, None) \<Rightarrow>
                         (s3\<lparr>performed := performed s3 @ evs,
                             present := (if act = Link \<or> act = Copy \<or> act = Build
                                         then (present s3)(bdir := True) else present s3),
                             last_name := c_name c, last_tool := c_tool c,
                             last_branch := c_branch c, last_preproc := flags,
                             last_build_dir := bdir\<rparr>, None))))"

fun setup_binaries ::
  "probe \<Rightarrow> args \<Rightarrow> config list \<Rightarrow> build_state \<Rightarrow> build_state \<times> error option" where
  "setup_binaries pr a [] s = (s, None)"
| "setup_binaries pr a (c # cs) s =
     (case resolve_entry pr a c s of
        (s', Some e) \<Rightarrow> (s', Some e)
      | (s', None) \<Rightarrow> setup_binaries pr a cs s')"


subsection \<open>A small experiment\<close>

text \<open>
  One unpaired \<^verbatim>\<open>bowtie\<close> entry in the multi-threaded regime, a timeout of ten seconds and
  one read per thread. In the world \<open>ex_world\<close> no path exists (so no index file does),
  every command succeeds, every file counts four lines, the partitioner is
  \<open>prepare_reads\<close>, and every aligner runs for \<open>secs\<close> seconds when its wrapper starts it
  (\<open>ok\<close>). The stop-on-fail option is the parameter of \<open>ex_args\<close>.
\<close>

definition ex_args :: "bool \<Rightarrow> args" where
  "ex_args stop =
     \<lparr>index = ''idx'', output_dir = ''out'', build_dir = ''build'', m1 = ''r1.fq'',
      m1b = ''r1b.fq'', m2 = None, m2b = None, timeout = 10, preproc = None,
      force_builds = False, pull = False, sam_output_dir = False, sam_dev_null = False,
      delete_sam = False, stop_on_fail = stop, no_count = True, reads_per_thread = 1\<rparr>"

definition ex_config :: config where
  "ex_config =
     \<lparr>c_name = ''v1'', c_tool = ''bowtie'', c_branch = ''master'', c_mp_mt = 0,
      c_preproc = [], c_args = []\<rparr>"

definition ex_probe :: probe where
  "ex_probe =
     \<lparr>path_exists = (\<lambda>_. False), wc_lines = (\<lambda>_. Some 4), gz_lines = (\<lambda>_. 0),
      system = (\<lambda>_. 0)\<rparr>"

definition ex_world :: "args \<Rightarrow> nat \<Rightarrow> bool \<Rightarrow> world" where
  "ex_world a secs ok =
     \<lparr>fs = ex_probe, partitioner = prepare_reads ex_probe a,
      behaviour = (\<lambda>_. \<lparr>run_time = secs, spawn_ok = ok\<rparr>),
      iostat_x = False, have_iostat = False, have_top = False, darwin = False\<rparr>"



text \<open>
  A paired-end run of two threads with one thread per process: two slices per mate under
  \<^verbatim>\<open>tmp\<close>. The probe sees the files \<open>files\<close>, \<^verbatim>\<open>wc -l\<close> reports \<open>nlines\<close>, and the two
  split pipelines of this run succeed (any other command fails).
\<close>

definition ex_paired_args :: args where
  "ex_paired_args = (ex_args False)\<lparr>m2 := Some ''r2.fq''\<rparr>"

definition ex_split_probe :: "string list \<Rightarrow> (string \<Rightarrow> int) \<Rightarrow> probe" where
  "ex_split_probe files nlines =
     \<lparr>path_exists = (\<lambda>f. f \<in> set files), wc_lines = (\<lambda>f. Some (nlines f)),
      gz_lines = (\<lambda>_. 0),
      system = (\<lambda>cmd. if cmd \<in> {''cat r1.fq | head -n 8 | split -l 4 -a 3 - tmp/1_'',
                                    ''cat r2.fq | head -n 8 | split -l 4 -a 3 - tmp/2_''}
                         then 0 else 1)\<rparr>"


section \<open>Properties\<close>

subsection \<open>Slice labels\<close>

lemma slice_lab_digits_stop: "i \<le> 0 \<Longrightarrow> slice_lab_digits i ret = ret"
  by (subst slice_lab_digits.simps) simp

lemma slice_lab_digits_step:
  "0 < i \<Longrightarrow> slice_lab_digits i ret = slice_lab_digits (i div 26) ((alphabet ! nat (i mod 26)) # ret)"
  by (subst slice_lab_digits.simps) simp

lemma slice_lab_pad_stop: "3 \<le> length ret \<Longrightarrow> slice_lab_pad ret = ret"
  by (subst slice_lab_pad.simps) simp

lemma slice_lab_pad_step: "length ret < 3 \<Longrightarrow> slice_lab_pad ret = slice_lab_pad (CHR ''a'' # ret)"
  by (subst slice_lab_pad.simps) simp

lemma alphabet_0: "alphabet ! 0 = CHR ''a''"
  by (simp add: alphabet_def)

lemma slice_lab_digits_grows: "length ret \<le> length (slice_lab_digits i ret)"
proof (induction i ret rule: slice_lab_digits.induct)
  case (1 i ret)
  show ?case
  proof (cases "0 < i")
    case True
    with 1 show ?thesis by (simp add: slice_lab_digits_step)
  next
    case False
    then show ?thesis by (simp add: slice_lab_digits_stop)
  qed
qed

lemma slice_lab_digits_long:
  "26 ^ k \<le> i \<Longrightarrow> length ret + k < length (slice_lab_digits i ret)"
proof (induction k arbitrary: i ret)
  case 0
  then have pos: "0 < i" by simp
  have "length ((alphabet ! nat (i mod 26)) # ret)
      \<le> length (slice_lab_digits (i div 26) ((alphabet ! nat (i mod 26)) # ret))"
    by (rule slice_lab_digits_grows)
  then show ?case
    by (simp add: slice_lab_digits_step [OF pos])
next
  case (Suc k)
  have pos: "0 < i"
    using Suc.prems by (smt (verit) zero_less_power)
  have "26 ^ k \<le> i div 26"
    using Suc.prems by (simp add: zdiv_mono1 [of "26 * 26 ^ k" i 26, simplified])
  then have "length ((alphabet ! nat (i mod 26)) # ret) + k
      < length (slice_lab_digits (i div 26) ((alphabet ! nat (i mod 26)) # ret))"
    by (rule Suc.IH)
  then show ?case
    by (simp add: slice_lab_digits_step [OF pos])
qed

lemma slice_lab_small:
  assumes "0 \<le> i" and "i < 17576"
  shows "slice_lab i = Inr (base26_label i)"
proof -
  consider "i = 0" | "0 < i" "i < 26" | "26 \<le> i" "i < 676" | "676 \<le> i"
    using assms by linarith
  then show ?thesis
  proof cases
    case 1
    then show ?thesis
      by (simp add: slice_lab_def base26_label_def slice_lab_digits_stop slice_lab_pad_step
          slice_lab_pad_stop alphabet_0)
  next
    case 2
    then have d: "i div 26 = 0" "i div 676 = 0" by simp_all
    show ?thesis
      using 2 by (simp add: slice_lab_def base26_label_def slice_lab_digits_step d
          slice_lab_digits_stop slice_lab_pad_step slice_lab_pad_stop alphabet_0)
  next
    case 3
    then have d: "0 < i" "0 < i div 26" "i div 26 div 26 = 0" "i div 676 = 0" "i div 26 < 26"
      by simp_all
    then have m: "i div 26 mod 26 = i div 26" by simp
    show ?thesis
      using d by (simp add: slice_lab_def base26_label_def slice_lab_digits_step
          slice_lab_digits_stop slice_lab_pad_step slice_lab_pad_stop alphabet_0 m)
  next
    case 4
    have e: "i div 26 div 26 = i div 676"
      by (simp add: zdiv_zmult2_eq)
    from 4 assms have d: "0 < i" "0 < i div 26" "0 < i div 676" "i div 676 < 26"
      by simp_all
    then have z: "i div 676 div 26 = 0" "i div 676 mod 26 = i div 676"
      by simp_all
    show ?thesis
      using d by (simp add: slice_lab_def base26_label_def slice_lab_digits_step e z
          slice_lab_digits_stop slice_lab_pad_stop)
  qed
qed

lemma slice_lab_large:
  assumes "17576 \<le> i"
  shows "slice_lab i = Inl AssertionError"
proof -
  have "(26::int) ^ 3 \<le> i" using assms by simp
  then have "length ([]::string) + 3 < length (slice_lab_digits i [])"
    by (rule slice_lab_digits_long)
  then have len: "3 < length (slice_lab_digits i [])" by simp
  then have "slice_lab_pad (slice_lab_digits i []) = slice_lab_digits i []"
    by (simp add: slice_lab_pad_stop)
  then show ?thesis
    using len by (simp add: slice_lab_def)
qed

lemma alphabet_distinct: "distinct alphabet"
  by (simp add: alphabet_def)

lemma base26_label_inj:
  assumes "0 \<le> i" "i < 17576" "0 \<le> j" "j < 17576" "base26_label i = base26_label j"
  shows "i = j"
proof -
  have len: "length alphabet = 26" by (simp add: alphabet_def)
  have nth_inj: "alphabet ! nat x = alphabet ! nat y \<Longrightarrow> x = y"
    if "0 \<le> x" "x < 26" "0 \<le> y" "y < 26" for x y :: int
    using that nth_eq_iff_index_eq [OF alphabet_distinct, of "nat x" "nat y"] len by auto
  from assms(5) have a: "alphabet ! nat (i div 676 mod 26) = alphabet ! nat (j div 676 mod 26)"
    and b: "alphabet ! nat (i div 26 mod 26) = alphabet ! nat (j div 26 mod 26)"
    and c: "alphabet ! nat (i mod 26) = alphabet ! nat (j mod 26)"
    by (simp_all add: base26_label_def)
  have a': "i div 676 mod 26 = j div 676 mod 26" using a by (intro nth_inj) simp_all
  have b': "i div 26 mod 26 = j div 26 mod 26" using b by (intro nth_inj) simp_all
  have c': "i mod 26 = j mod 26" using c by (intro nth_inj) simp_all
  have hi: "i div 676 < 26" "j div 676 < 26" "0 \<le> i div 676" "0 \<le> j div 676"
    using assms by simp_all
  then have a'': "i div 676 = j div 676" using a' by simp
  have e: "x div 676 = x div 26 div 26" for x :: int by (simp add: zdiv_zmult2_eq)
  have "i div 26 = 26 * (i div 26 div 26) + i div 26 mod 26" by simp
  also have "\<dots> = 26 * (j div 26 div 26) + j div 26 mod 26" using a'' b' by (simp add: e)
  also have "\<dots> = j div 26" by simp
  finally have d: "i div 26 = j div 26" .
  have "i = 26 * (i div 26) + i mod 26" by simp
  also have "\<dots> = 26 * (j div 26) + j mod 26" using d c' by simp
  also have "\<dots> = j" by simp
  finally show ?thesis .
qed

text \<open>
  C6 (amended). For \<open>0 \<le> i < 26\<^sup>3 = 17576\<close> the slice label of \<open>i\<close> is the three-character
  base-26 numeral of \<open>i\<close> over \<open>a..z\<close>, so the labels of \<open>0, 1, 2, ...\<close> are
  \<open>aaa, aab, aac, ...\<close>; from \<open>17576\<close> on the numeral has four characters or more and the
  assertion on the length fails.
\<close>

theorem slice_lab_base26:
  "(0 \<le> i \<and> i < 17576 \<longrightarrow> slice_lab i = Inr (base26_label i) \<and> length (base26_label i) = 3)
   \<and> (17576 \<le> i \<longrightarrow> slice_lab i = Inl AssertionError)"
proof -
  have "length (base26_label i) = 3"
    by (simp add: base26_label_def)
  then show ?thesis
    using slice_lab_small [of i] slice_lab_large [of i] by simp
qed

theorem slice_lab_base26_witness:
  "slice_lab 0 = Inr ''aaa'' \<and> slice_lab 1 = Inr ''aab'' \<and> slice_lab 26 = Inr ''aba''
   \<and> slice_lab 17575 = Inr ''zzz'' \<and> slice_lab 17577 = Inl AssertionError"
  using slice_lab_base26 [of 0] slice_lab_base26 [of 1] slice_lab_base26 [of 26]
    slice_lab_base26 [of 17575] slice_lab_base26 [of 17577]
  by (simp add: base26_label_def alphabet_def)

theorem slice_lab_counterexample:
  "slice_lab 17576 = Inl AssertionError \<and> slice_lab 17576 \<noteq> Inr (base26_label 17576)"
  using slice_lab_large [of 17576] by simp

subsection \<open>The catalog file\<close>

lemma split_on_nonempty: "split_on c s \<noteq> []"
  by (induction s) (auto split: list.splits)

lemma split_on_first:
  "x \<noteq> c \<Longrightarrow> \<exists>t ts. split_on c (x # xs) = (x # t) # ts"
  using split_on_nonempty [of c xs] by (cases "split_on c xs") auto

lemma is_header_iff:
  "is_header (split_on TAB ln) = Inr True \<longleftrightarrow> header_line ln"
  by (auto simp: is_header_def header_line_def split: list.splits if_splits)

lemma is_header_error:
  "is_header toks = Inl e \<Longrightarrow> length toks < 3"
  by (auto simp: is_header_def split: list.splits if_splits)

lemma comment_not_header:
  assumes "startswith ln ''#''"
  shows "is_header (split_on TAB ln) = Inr False"
proof -
  from assms obtain r where ln: "ln = CHR ''#'' # r"
    by (cases ln) auto
  have "CHR ''#'' \<noteq> TAB" by (simp add: TAB_def)
  from split_on_first [OF this, of r] obtain t ts where
    "split_on TAB ln = (CHR ''#'' # t) # ts" using ln by auto
  then show ?thesis by (simp add: is_header_def)
qed

text \<open>
  C7 (amended). A line whose first three tab-separated fields are \<^verbatim>\<open>name\<close>, \<^verbatim>\<open>tool\<close>,
  \<^verbatim>\<open>branch\<close> is skipped; a line that starts with \<^verbatim>\<open>#\<close> is skipped, whatever its number
  of fields; any other line whose number of fields is not 6 ends the parse with an
  exception; and a line with exactly 6 fields yields an entry when its fourth field reads
  as an integer, and ends the parse with ValueError when it does not.
\<close>

theorem parse_line_cases:
  "(header_line ln \<longrightarrow> parse_line ln = Skipped)
   \<and> (startswith ln ''#'' \<longrightarrow> parse_line ln = Skipped)
   \<and> (\<not> header_line ln \<and> \<not> startswith ln ''#'' \<and> length (split_on TAB ln) \<noteq> 6
        \<longrightarrow> (\<exists>e. parse_line ln = Raised e))
   \<and> (\<not> header_line ln \<and> \<not> startswith ln ''#'' \<and> length (split_on TAB ln) = 6
        \<longrightarrow> parse_line ln =
            (case py_int (split_on TAB ln ! 3) of
               None \<Rightarrow> Raised ValueError
             | Some m \<Rightarrow>
                 Yielded \<lparr>c_name = split_on TAB ln ! 0, c_tool = split_on TAB ln ! 1,
                          c_branch = split_on TAB ln ! 2, c_mp_mt = m,
                          c_preproc = split_on TAB ln ! 4,
                          c_args = rstrip (split_on TAB ln ! 5)\<rparr>))"
proof (intro conjI impI)
  assume "header_line ln"
  then have "is_header (split_on TAB ln) = Inr True"
    by (simp add: is_header_iff)
  then show "parse_line ln = Skipped"
    by (simp add: parse_line_def Let_def)
next
  assume "startswith ln ''#''"
  then show "parse_line ln = Skipped"
    by (simp add: parse_line_def Let_def comment_not_header)
next
  assume a: "\<not> header_line ln \<and> \<not> startswith ln ''#'' \<and> length (split_on TAB ln) \<noteq> 6"
  show "\<exists>e. parse_line ln = Raised e"
  proof (cases "is_header (split_on TAB ln)")
    case (Inl e)
    then show ?thesis by (simp add: parse_line_def Let_def)
  next
    case (Inr b)
    with a have "b = False" using is_header_iff [of ln] by auto
    with Inr a show ?thesis
      by (simp add: parse_line_def Let_def split_on_nonempty)
  qed
next
  assume a: "\<not> header_line ln \<and> \<not> startswith ln ''#'' \<and> length (split_on TAB ln) = 6"
  show "parse_line ln =
            (case py_int (split_on TAB ln ! 3) of
               None \<Rightarrow> Raised ValueError
             | Some m \<Rightarrow>
                 Yielded \<lparr>c_name = split_on TAB ln ! 0, c_tool = split_on TAB ln ! 1,
                          c_branch = split_on TAB ln ! 2, c_mp_mt = m,
                          c_preproc = split_on TAB ln ! 4,
                          c_args = rstrip (split_on TAB ln ! 5)\<rparr>)"
  proof (cases "is_header (split_on TAB ln)")
    case (Inl e)
    from is_header_error [OF this] a show ?thesis by simp
  next
    case (Inr b)
    with a have "b = False" using is_header_iff [of ln] by auto
    with Inr a show ?thesis
      by (simp add: parse_line_def Let_def split: option.splits)
  qed
qed

theorem parse_line_cases_witness:
  "parse_line (''name'' @ [TAB] @ ''tool'' @ [TAB] @ ''branch'' @ [TAB] @ ''mp_mt'' @ [NL]) = Skipped
   \<and> parse_line (''# v0'' @ [TAB] @ ''bowtie'' @ [NL]) = Skipped
   \<and> (\<exists>e. parse_line (''v0'' @ [TAB] @ ''bowtie'' @ [NL]) = Raised e)
   \<and> parse_line (''v1'' @ [TAB] @ ''bowtie'' @ [TAB] @ ''master'' @ [TAB] @ ''12'' @ [TAB]
         @ [TAB] @ ''--foo'' @ [NL])
       = Yielded \<lparr>c_name = ''v1'', c_tool = ''bowtie'', c_branch = ''master'', c_mp_mt = 12,
                  c_preproc = [], c_args = ''--foo''\<rparr>"
  using parse_line_cases [of "''name'' @ [TAB] @ ''tool'' @ [TAB] @ ''branch'' @ [TAB] @ ''mp_mt'' @ [NL]"]
    parse_line_cases [of "''# v0'' @ [TAB] @ ''bowtie'' @ [NL]"]
    parse_line_cases [of "''v0'' @ [TAB] @ ''bowtie'' @ [NL]"]
    parse_line_cases [of "''v1'' @ [TAB] @ ''bowtie'' @ [TAB] @ ''master'' @ [TAB] @ ''12'' @ [TAB]
         @ [TAB] @ ''--foo'' @ [NL]"]
  by (simp add: header_line_def TAB_def NL_def py_int_def strip_def rstrip_def is_space_def
      is_digit_def digits_val_def digit_val_def)

theorem parse_line_counterexample:
  "length (split_on TAB (''v1'' @ [TAB] @ ''bowtie'' @ [TAB] @ ''master'' @ [TAB] @ ''x'' @ [TAB]
      @ [TAB] @ ''--foo'' @ [NL])) = 6
   \<and> \<not> header_line (''v1'' @ [TAB] @ ''bowtie'' @ [TAB] @ ''master'' @ [TAB] @ ''x'' @ [TAB]
      @ [TAB] @ ''--foo'' @ [NL])
   \<and> \<not> startswith (''v1'' @ [TAB] @ ''bowtie'' @ [TAB] @ ''master'' @ [TAB] @ ''x'' @ [TAB]
      @ [TAB] @ ''--foo'' @ [NL]) ''#''
   \<and> parse_line (''v1'' @ [TAB] @ ''bowtie'' @ [TAB] @ ''master'' @ [TAB] @ ''x'' @ [TAB]
      @ [TAB] @ ''--foo'' @ [NL]) = Raised ValueError"
  by (simp add: parse_line_def Let_def header_line_def TAB_def NL_def is_header_def py_int_def
      strip_def rstrip_def is_space_def is_digit_def)

subsection \<open>The process supervisor\<close>

lemma sup_inv_init: "sup_inv procs 0 (sup_init procs)"
  by (simp add: sup_inv_def sup_init_def)

lemma sup_inv_flagged:
  assumes "length (ends s) = length procs" and "length (exitlevels s) = k"
    and "done_val s = 1" and "\<forall>j<length procs. ends s ! j \<le> clock s"
    and "k \<le> length procs" and "i < k"
    and "\<forall>j<k. exitlevels s ! j = (if j = i then None else Some (exitcode (procs ! j)))"
    and "\<forall>j. StillAlive j \<in> set (sup_log s) \<longleftrightarrow> j = i"
    and "\<forall>j<length procs. Sigterm j \<in> set (sup_log s) \<or> ends s ! j = wrapper_end (procs ! j)"
  shows "sup_inv procs k s"
  unfolding sup_inv_def using assms by auto

lemma join_one_returns:
  "ends s ! i \<le> clock s + tmo \<Longrightarrow>
   join_one tmo procs s i =
     s\<lparr>clock := max (clock s) (ends s ! i),
       exitlevels := exitlevels s @ [Some (exitcode (procs ! i))]\<rparr>"
  by (simp add: join_one_def)

lemma join_one_expires:
  "\<not> ends s ! i \<le> clock s + tmo \<Longrightarrow>
   join_one tmo procs s i =
     s\<lparr>clock := clock s + tmo + 1,
       done_val := 1,
       ends := map (\<lambda>e. if clock s + tmo < e then clock s + tmo + 1 else e) (ends s),
       sup_log := sup_log s @ [StillAlive i]
          @ map Sigterm (filter (\<lambda>j. clock s + tmo < ends s ! j) [0..<length (ends s)]),
       exitlevels := exitlevels s @ [None]\<rparr>"
  by (simp add: join_one_def Let_def)

lemma sup_inv_step:
  assumes "sup_inv procs k s" and "k < length procs"
  shows "sup_inv procs (Suc k) (join_one tmo procs s k)"
proof (cases "done_val s = 0")
  case True
  from True assms have inv:
    "length (ends s) = length procs" "length (exitlevels s) = k" "sup_log s = []"
    "ends s = map wrapper_end procs" "\<forall>j<k. ends s ! j \<le> clock s"
    "\<forall>j<k. exitlevels s ! j = Some (exitcode (procs ! j))"
    by (auto simp: sup_inv_def)
  show ?thesis
  proof (cases "ends s ! k \<le> clock s + tmo")
    case le: True
    show ?thesis
      unfolding join_one_returns [OF le] sup_inv_def
      using True inv assms(2) by (auto simp: nth_append less_Suc_eq max_def)
  next
    case False
    show ?thesis
      unfolding join_one_expires [OF False]
    proof (rule sup_inv_flagged [where i = k])
      show "\<forall>j. (StillAlive j \<in> set (sup_log (s\<lparr>clock := clock s + tmo + 1, done_val := 1,
           ends := map (\<lambda>e. if clock s + tmo < e then clock s + tmo + 1 else e) (ends s),
           sup_log := sup_log s @ [StillAlive k]
             @ map Sigterm (filter (\<lambda>j. clock s + tmo < ends s ! j) [0..<length (ends s)]),
           exitlevels := exitlevels s @ [None]\<rparr>))) = (j = k)"
        using inv by auto
    qed (use inv assms(2) in \<open>auto simp: nth_append\<close>)
  qed
next
  case False
  with assms have d: "done_val s = 1" and e: "\<forall>j<length procs. ends s ! j \<le> clock s"
    by (auto simp: sup_inv_def)
  with assms(2) have le: "ends s ! k \<le> clock s + tmo" by (simp add: trans_le_add1)
  from assms False d obtain i where i: "i < k"
    "\<forall>j<k. exitlevels s ! j = (if j = i then None else Some (exitcode (procs ! j)))"
    "\<forall>j. StillAlive j \<in> set (sup_log s) \<longleftrightarrow> j = i"
    "\<forall>j<length procs. Sigterm j \<in> set (sup_log s) \<or> ends s ! j = wrapper_end (procs ! j)"
    by (auto simp: sup_inv_def)
  from assms have len: "length (ends s) = length procs" "length (exitlevels s) = k"
    by (simp_all add: sup_inv_def)
  show ?thesis
    unfolding join_one_returns [OF le]
  proof (rule sup_inv_flagged [where i = i])
    show "\<forall>j<Suc k. exitlevels (s\<lparr>clock := max (clock s) (ends s ! k),
         exitlevels := exitlevels s @ [Some (exitcode (procs ! k))]\<rparr>) ! j
        = (if j = i then None else Some (exitcode (procs ! j)))"
      using i len by (auto simp: nth_append less_Suc_eq)
  qed (use i len d e assms(2) in \<open>auto simp: max_def\<close>)
qed

lemma sup_inv_upto:
  "k \<le> length procs \<Longrightarrow> sup_inv procs k (foldl (join_one tmo procs) (sup_init procs) [0..<k])"
proof (induction k)
  case 0
  show ?case by (simp add: sup_inv_init)
next
  case (Suc k)
  then show ?case by (simp add: sup_inv_step)
qed

lemma supervise_inv: "sup_inv procs (length procs) (supervise tmo procs)"
  using sup_inv_upto [of "length procs" procs tmo] by (simp add: supervise_def)







text \<open>
  C1 (amended). The supervisor returns one outcome per command. The command whose wait
  timed out, and only that one, reports no exit code (it is the one that counts as timed
  out); every other command, also one that was killed through the flag, reports the exit
  code of its wrapper process, which is 0 or 1 and never the code of a signal. At most one
  wait times out in an attempt.
\<close>

theorem supervise_exitlevels:
  "length (exitlevels (supervise tmo procs)) = length procs
   \<and> (\<forall>i<length procs.
         exitlevels (supervise tmo procs) ! i =
           (if StillAlive i \<in> set (sup_log (supervise tmo procs)) then None
            else Some (exitcode (procs ! i))))
   \<and> (\<forall>i<length procs. exitcode (procs ! i) = 0 \<or> exitcode (procs ! i) = 1)
   \<and> (\<forall>i j. StillAlive i \<in> set (sup_log (supervise tmo procs))
            \<and> StillAlive j \<in> set (sup_log (supervise tmo procs)) \<longrightarrow> i = j)"
proof -
  let ?s = "supervise tmo procs"
  have inv: "sup_inv procs (length procs) ?s" by (rule supervise_inv)
  have codes: "\<forall>i<length procs. exitcode (procs ! i) = 0 \<or> exitcode (procs ! i) = 1"
    by (simp add: exitcode_def)
  show ?thesis
  proof (cases "done_val ?s = 0")
    case True
    with inv codes show ?thesis by (simp add: sup_inv_def)
  next
    case False
    with inv obtain i0 where
      "\<forall>j<length procs. exitlevels ?s ! j = (if j = i0 then None else Some (exitcode (procs ! j)))"
      "\<forall>j. StillAlive j \<in> set (sup_log ?s) \<longleftrightarrow> j = i0"
      by (auto simp: sup_inv_def)
    moreover from inv have "length (exitlevels ?s) = length procs" by (simp add: sup_inv_def)
    ultimately show ?thesis using codes by simp
  qed
qed

theorem supervise_exitlevels_witness:
  "exitlevels (supervise 10 [\<lparr>run_time = 3, spawn_ok = True\<rparr>, \<lparr>run_time = 100, spawn_ok = True\<rparr>,
       \<lparr>run_time = 5, spawn_ok = False\<rparr>]) = [Some 0, None, Some 1]"
  using supervise_exitlevels [of 10 "[\<lparr>run_time = 3, spawn_ok = True\<rparr>,
       \<lparr>run_time = 100, spawn_ok = True\<rparr>, \<lparr>run_time = 5, spawn_ok = False\<rparr>]"]
  by (simp add: supervise_def sup_init_def join_one_def Let_def wrapper_end_def exitcode_def)

theorem supervise_counterexample:
  "Sigterm 1 \<in> set (sup_log (supervise 10 [\<lparr>run_time = 100, spawn_ok = True\<rparr>,
       \<lparr>run_time = 100, spawn_ok = True\<rparr>]))
   \<and> exitlevels (supervise 10 [\<lparr>run_time = 100, spawn_ok = True\<rparr>,
       \<lparr>run_time = 100, spawn_ok = True\<rparr>]) = [None, Some 0]"
  by (simp add: supervise_def sup_init_def join_one_def Let_def wrapper_end_def exitcode_def)

subsection \<open>Partitioning the reads\<close>

lemma py_range_1: "py_range 1 = [0]"
  by (simp add: py_range_def)

lemma py_range_2: "py_range 2 = [0, 1]"
proof -
  have "[0..<2] = [0, Suc 0]" by (simp add: upt_rec)
  then show ?thesis by (simp add: py_range_def)
qed

lemma path_join_append: "b \<noteq> [] \<Longrightarrow> path_join a (b @ c) = path_join a b @ c"
  by (cases b) (simp_all add: path_join_def)

lemma py_range_set: "set (py_range n) = {i. 0 \<le> i \<and> i < n}"
proof (rule set_eqI)
  fix x
  show "x \<in> set (py_range n) \<longleftrightarrow> x \<in> {i. 0 \<le> i \<and> i < n}"
  proof
    assume "x \<in> set (py_range n)"
    then show "x \<in> {i. 0 \<le> i \<and> i < n}" by (auto simp: py_range_def)
  next
    assume "x \<in> {i. 0 \<le> i \<and> i < n}"
    then have x: "0 \<le> x" "x < n" by simp_all
    then have "nat x \<in> set [0..<nat n]" by simp
    then have "int (nat x) \<in> set (py_range n)" unfolding py_range_def set_map by (rule imageI)
    with x show "x \<in> set (py_range n)" by simp
  qed
qed

lemma alphabet_nth_lower: "k < 26 \<Longrightarrow> alphabet ! k \<noteq> CHR ''.''"
proof -
  assume "k < 26"
  then have "k < length alphabet" by (simp add: alphabet_def)
  then have "alphabet ! k \<in> set alphabet" by (rule nth_mem)
  moreover have "CHR ''.'' \<notin> set alphabet" by (simp add: alphabet_def)
  ultimately show ?thesis by metis
qed

lemma wcl_slice:
  "wcl pr (p @ base26_label i) = Inr k \<longleftrightarrow> wc_lines pr (p @ base26_label i) = Some k"
proof -
  have "nat (i div 676 mod 26) < 26" by simp
  then have "alphabet ! nat (i div 676 mod 26) \<noteq> CHR ''.''" by (rule alphabet_nth_lower)
  then have "\<not> endswith (p @ base26_label i) ''.gz''"
    by (simp add: endswith_def base26_label_def)
  then show ?thesis by (simp add: wcl_def split: option.splits)
qed

lemma check_slices_iff:
  assumes "\<forall>i\<in>set is. 0 \<le> i \<and> i < 17576"
  shows "check_slices pr rp ofn is = None
         \<longleftrightarrow> (\<forall>i\<in>set is. wcl pr (ofn @ base26_label i) = Inr (rp * 4))"
  using assms
proof (induction "is")
  case Nil
  show ?case by simp
next
  case (Cons i "is")
  then have lab: "slice_lab i = Inr (base26_label i)" by (simp add: slice_lab_small)
  from Cons show ?case
    by (auto simp: lab split: sum.splits)
qed

lemma collect_read_sets_iff:
  assumes "\<forall>i\<in>set is. 0 \<le> i \<and> i < 17576"
  shows "collect_read_sets pr a tmpdir is = Inr rs
         \<longleftrightarrow> (\<forall>i\<in>set is. path_exists pr (path_join tmpdir (''1_'' @ base26_label i))
                  \<and> (m2 a \<noteq> None \<longrightarrow> path_exists pr (path_join tmpdir (''2_'' @ base26_label i))))
             \<and> rs = map (\<lambda>i. if m2 a \<noteq> None
                              then [path_join tmpdir (''1_'' @ base26_label i),
                                    path_join tmpdir (''2_'' @ base26_label i)]
                              else [path_join tmpdir (''1_'' @ base26_label i)]) is"
  (is "_ \<longleftrightarrow> (\<forall>i\<in>set is. ?ok i) \<and> rs = map ?f is")
  using assms
proof (induction "is" arbitrary: rs)
  case Nil
  show ?case by auto
next
  case (Cons i "is")
  then have lab: "slice_lab i = Inr (base26_label i)" by (simp add: slice_lab_small)
  from Cons.prems have rest: "\<forall>i\<in>set is. 0 \<le> i \<and> i < 17576" by simp
  note IH = Cons.IH [OF rest]
  show ?case
  proof (cases "collect_read_sets pr a tmpdir is")
    case (Inl e)
    with IH [of "map ?f is"] have "\<not> (\<forall>i\<in>set is. ?ok i)" by simp
    with Inl show ?thesis by (auto simp: lab Let_def)
  next
    case (Inr rest)
    with IH [of rest] have "\<forall>i\<in>set is. ?ok i" and "rest = map ?f is" by simp_all
    with Inr show ?thesis by (auto simp: lab Let_def)
  qed
qed

lemma slice_all_fastq_iff:
  assumes "n \<le> 17576"
  shows "slice_all_fastq pr rp n ifn ofn = None
         \<longleftrightarrow> \<not> str_in ''block'' ifn \<and> system pr (split_cmd rp n ifn ofn) = 0
             \<and> (\<forall>i\<in>set (py_range n). wcl pr (ofn @ base26_label i) = Inr (rp * 4))"
proof -
  have "\<forall>i\<in>set (py_range n). 0 \<le> i \<and> i < 17576" using assms by (simp add: py_range_set)
  from check_slices_iff [OF this] show ?thesis
    by (simp add: slice_all_fastq_def Let_def)
qed


lemma prepare_reads_large:
  assumes "0 < mp_mt" and "17576 \<le> nthread div mp_mt"
  shows "prepare_reads pr a nthread mp_mt tmpdir blocked \<noteq> Inr rs"
proof -
  from assms(2) have e: "int_plus_eps (nthread div mp_mt) = nthread div mp_mt"
    by (simp add: int_plus_eps_def)
  from assms(2) have l: "slice_lab (nthread div mp_mt) = Inl AssertionError"
    by (rule slice_lab_large)
  show ?thesis
    using assms(1) by (simp add: prepare_reads_def Let_def e l split: option.splits sum.splits)
qed

lemma prepare_reads_small:
  assumes "0 < mp_mt" and "nthread mod mp_mt = 0" and "0 < nthread" and "nthread div mp_mt < 17576"
  shows "prepare_reads pr a nthread mp_mt tmpdir False = Inr rs \<longleftrightarrow>
           slice_all_fastq pr (int_plus_eps ((reads_per_thread a * nthread) div (nthread div mp_mt)))
             (nthread div mp_mt) (m1 a) (path_join tmpdir ''1_'') = None
         \<and> (\<forall>f2. m2 a = Some f2 \<longrightarrow>
               slice_all_fastq pr (int_plus_eps ((reads_per_thread a * nthread) div (nthread div mp_mt)))
                 (nthread div mp_mt) f2 (path_join tmpdir ''2_'') = None)
         \<and> collect_read_sets pr a tmpdir (py_range (nthread div mp_mt)) = Inr rs
         \<and> \<not> path_exists pr (path_join tmpdir (''1_'' @ base26_label (nthread div mp_mt)))"
proof -
  from assms(2) have "mp_mt dvd nthread" by (simp add: dvd_eq_mod_eq_0)
  with assms(3) have "mp_mt \<le> nthread" by (rule_tac zdvd_imp_le)
  with assms(1) have pos: "0 < nthread div mp_mt" by (simp add: pos_imp_zdiv_pos_iff)
  then have e: "int_plus_eps (nthread div mp_mt) = nthread div mp_mt"
    by (simp add: int_plus_eps_def)
  from pos assms(4) have l: "slice_lab (nthread div mp_mt) = Inr (base26_label (nthread div mp_mt))"
    by (simp add: slice_lab_small)
  from pos have nz: "nthread div mp_mt \<noteq> 0" by simp
  show ?thesis
    using assms(1,2) nz
    by (auto simp add: prepare_reads_def Let_def e l split: option.splits sum.splits)
qed

text \<open>
  C9 (amended). For a run with \<open>mp_mt > 0\<close> threads per process, \<open>n = nthread / mp_mt\<close>
  processes and \<open>rpp\<close> reads per process, \<^verbatim>\<open>prepare_reads\<close> returns read sets exactly when
  the input is not blocked, \<open>mp_mt\<close> divides \<open>nthread\<close>, \<open>n < 17576\<close>, no input file name
  contains \<^verbatim>\<open>block\<close>, the split pipeline of mate 1 and (when declared) of mate 2 exits with
  0, every slice \<open>0 .. n - 1\<close> of mate 1 and (when declared) of mate 2 has \<open>4 * rpp\<close> lines and
  exists, and the mate-1 slice of index \<open>n\<close> does not exist; it then returns the slices in
  order, and in every other case it raises. No other file is looked at: an extra slice of
  mate 2, or one of mate 1 beyond index \<open>n\<close>, is not detected.
\<close>

theorem partition_postconditions:
  assumes "0 < mp_mt" and "0 < nthread"
  shows
    "let n = nthread div mp_mt;
         rpp = int_plus_eps ((reads_per_thread a * nthread) div n);
         pre1 = path_join tmpdir ''1_'';
         pre2 = path_join tmpdir ''2_'';
         fn0 = (\<lambda>i. path_join tmpdir (''1_'' @ base26_label i));
         fn1 = (\<lambda>i. path_join tmpdir (''2_'' @ base26_label i))
     in prepare_reads pr a nthread mp_mt tmpdir blocked = Inr rs \<longleftrightarrow>
          \<not> blocked \<and> nthread mod mp_mt = 0 \<and> n < 17576
        \<and> \<not> str_in ''block'' (m1 a) \<and> system pr (split_cmd rpp n (m1 a) pre1) = 0
        \<and> (\<forall>i\<in>set (py_range n). wc_lines pr (pre1 @ base26_label i) = Some (rpp * 4))
        \<and> (\<forall>f2. m2 a = Some f2 \<longrightarrow>
               \<not> str_in ''block'' f2 \<and> system pr (split_cmd rpp n f2 pre2) = 0
             \<and> (\<forall>i\<in>set (py_range n). wc_lines pr (pre2 @ base26_label i) = Some (rpp * 4)
                                        \<and> path_exists pr (fn1 i)))
        \<and> (\<forall>i\<in>set (py_range n). path_exists pr (fn0 i))
        \<and> \<not> path_exists pr (fn0 n)
        \<and> rs = map (\<lambda>i. if m2 a \<noteq> None then [fn0 i, fn1 i] else [fn0 i]) (py_range n)"
proof -
  consider "blocked" | "\<not> blocked" "nthread mod mp_mt \<noteq> 0"
    | "\<not> blocked" "nthread mod mp_mt = 0" "17576 \<le> nthread div mp_mt"
    | "\<not> blocked" "nthread mod mp_mt = 0" "nthread div mp_mt < 17576"
    by linarith
  then show ?thesis
  proof cases
    case 1
    with assms show ?thesis by (simp add: prepare_reads_def Let_def)
  next
    case 2
    with assms show ?thesis by (simp add: prepare_reads_def Let_def)
  next
    case 3
    with prepare_reads_large [OF assms(1) 3(3)] show ?thesis by (simp add: Let_def)
  next
    case 4
    have r: "\<forall>i\<in>set (py_range (nthread div mp_mt)). 0 \<le> i \<and> i < 17576"
      using 4(3) by (simp add: py_range_set)
    have le: "nthread div mp_mt \<le> 17576" using 4(3) by simp
    note c = collect_read_sets_iff [OF r]
    note s = slice_all_fastq_iff [OF le]
    from 4(1) have b: "blocked = False" by simp
    show ?thesis
      unfolding b Let_def prepare_reads_small [OF assms(1) 4(2) assms(2) 4(3)] c s wcl_slice
      using 4(2,3) by auto
  qed
qed


text \<open>
  On the two-process example: the four slices with four lines each are accepted; a slice
  with eight lines, a missing slice and a third slice of mate 1 are each refused.
\<close>

lemmas split_simps =
  ex_paired_args_def ex_args_def ex_split_probe_def py_range_2 base26_label_def alphabet_def
  path_join_def endswith_def wcl_def int_plus_eps_def split_cmd_def str_int_def
  str_nat.simps [of 8] str_nat.simps [of 4] digit_char_def

theorem partition_postconditions_witness:
  "prepare_reads
     (ex_split_probe [''tmp/1_aaa'', ''tmp/1_aab'', ''tmp/2_aaa'', ''tmp/2_aab''] (\<lambda>_. 4))
     ex_paired_args 2 1 ''tmp'' False
   = Inr [[''tmp/1_aaa'', ''tmp/2_aaa''], [''tmp/1_aab'', ''tmp/2_aab'']]
   \<and> (\<forall>rs. prepare_reads
         (ex_split_probe [''tmp/1_aaa'', ''tmp/1_aab'', ''tmp/2_aaa'', ''tmp/2_aab'']
            (\<lambda>f. if f = ''tmp/2_aab'' then 8 else 4))
         ex_paired_args 2 1 ''tmp'' False \<noteq> Inr rs)
   \<and> (\<forall>rs. prepare_reads
         (ex_split_probe [''tmp/1_aaa'', ''tmp/1_aab'', ''tmp/2_aaa''] (\<lambda>_. 4))
         ex_paired_args 2 1 ''tmp'' False \<noteq> Inr rs)
   \<and> (\<forall>rs. prepare_reads
         (ex_split_probe [''tmp/1_aaa'', ''tmp/1_aab'', ''tmp/1_aac'', ''tmp/2_aaa'', ''tmp/2_aab'']
            (\<lambda>_. 4))
         ex_paired_args 2 1 ''tmp'' False \<noteq> Inr rs)"
proof (intro conjI allI)
  show "prepare_reads
     (ex_split_probe [''tmp/1_aaa'', ''tmp/1_aab'', ''tmp/2_aaa'', ''tmp/2_aab''] (\<lambda>_. 4))
     ex_paired_args 2 1 ''tmp'' False
   = Inr [[''tmp/1_aaa'', ''tmp/2_aaa''], [''tmp/1_aab'', ''tmp/2_aab'']]"
    using partition_postconditions [of 1 2 ex_paired_args "''tmp''"
        "ex_split_probe [''tmp/1_aaa'', ''tmp/1_aab'', ''tmp/2_aaa'', ''tmp/2_aab''] (\<lambda>_. 4)"
        False "[[''tmp/1_aaa'', ''tmp/2_aaa''], [''tmp/1_aab'', ''tmp/2_aab'']]"]
    by (simp add: split_simps)
next
  fix rs
  show "prepare_reads
         (ex_split_probe [''tmp/1_aaa'', ''tmp/1_aab'', ''tmp/2_aaa'', ''tmp/2_aab'']
            (\<lambda>f. if f = ''tmp/2_aab'' then 8 else 4))
         ex_paired_args 2 1 ''tmp'' False \<noteq> Inr rs"
    using partition_postconditions [of 1 2 ex_paired_args "''tmp''"
        "ex_split_probe [''tmp/1_aaa'', ''tmp/1_aab'', ''tmp/2_aaa'', ''tmp/2_aab'']
            (\<lambda>f. if f = ''tmp/2_aab'' then 8 else 4)" False rs]
    by (simp add: split_simps)
next
  fix rs
  show "prepare_reads
         (ex_split_probe [''tmp/1_aaa'', ''tmp/1_aab'', ''tmp/2_aaa''] (\<lambda>_. 4))
         ex_paired_args 2 1 ''tmp'' False \<noteq> Inr rs"
    using partition_postconditions [of 1 2 ex_paired_args "''tmp''"
        "ex_split_probe [''tmp/1_aaa'', ''tmp/1_aab'', ''tmp/2_aaa''] (\<lambda>_. 4)" False rs]
    by (simp add: split_simps)
next
  fix rs
  show "prepare_reads
         (ex_split_probe [''tmp/1_aaa'', ''tmp/1_aab'', ''tmp/1_aac'', ''tmp/2_aaa'', ''tmp/2_aab'']
            (\<lambda>_. 4))
         ex_paired_args 2 1 ''tmp'' False \<noteq> Inr rs"
    using partition_postconditions [of 1 2 ex_paired_args "''tmp''"
        "ex_split_probe [''tmp/1_aaa'', ''tmp/1_aab'', ''tmp/1_aac'', ''tmp/2_aaa'', ''tmp/2_aab'']
            (\<lambda>_. 4)" False rs]
    by (simp add: split_simps)
qed

text \<open>
  With two processes and the slices \<^verbatim>\<open>aaa\<close> and \<^verbatim>\<open>aab\<close> of both mates in place, a third
  slice \<^verbatim>\<open>tmp/2_aac\<close> of mate 2 goes unnoticed: the read sets are returned.
\<close>

theorem extra_slice_counterexample:
  "path_exists
     (ex_split_probe [''tmp/1_aaa'', ''tmp/1_aab'', ''tmp/2_aaa'', ''tmp/2_aab'', ''tmp/2_aac'']
        (\<lambda>_. 4)) ''tmp/2_aac''
   \<and> prepare_reads
       (ex_split_probe [''tmp/1_aaa'', ''tmp/1_aab'', ''tmp/2_aaa'', ''tmp/2_aab'', ''tmp/2_aac'']
          (\<lambda>_. 4))
       ex_paired_args 2 1 ''tmp'' False
     = Inr [[''tmp/1_aaa'', ''tmp/2_aaa''], [''tmp/1_aab'', ''tmp/2_aab'']]"
proof -
  have l: "slice_lab 0 = Inr ''aaa''" "slice_lab 1 = Inr ''aab''" "slice_lab 2 = Inr ''aac''"
    by (simp_all add: slice_lab_small base26_label_def alphabet_def)
  show ?thesis
    by (simp add: prepare_reads_def slice_all_fastq_def Let_def l split_simps)
qed

subsection \<open>The build artifact resolver\<close>






subsection \<open>Run attempts\<close>

lemma run_attempt_events:
  assumes "attempt_procs a tmpdir c nthreads nprocess ntpp rs (redo - idx) = Inr procs"
  shows "fst (run_attempt w a tmpdir c nthreads nprocess ntpp rs redo idx) =
      sam_mkdirs a (entry_odir a c) tmpdir (c_name c)
          (run_names_of a c nthreads nprocess (redo - idx)) (redo - idx)
      @ telemetry_start w
          (path_join (entry_odir a c) (hd (run_names_of a c nthreads nprocess (redo - idx)) @ ''.iostat''))
          (path_join (entry_odir a c) (hd (run_names_of a c nthreads nprocess (redo - idx)) @ ''.top''))
      @ procs
      @ sup_log (supervise (timeout a) (map (behaviour w) procs)) @ telemetry_kill w
      @ [touch (path_join (entry_odir a c)
                  (hd (run_names_of a c nthreads nprocess (redo - idx)) @ ''.JOIN'')),
         touch (path_join (entry_odir a c)
                  (hd (run_names_of a c nthreads nprocess (redo - idx))
                     @ outcome_ext (classify (exitlevels (supervise (timeout a) (map (behaviour w) procs))))))]
      @ (if \<not> (classify (exitlevels (supervise (timeout a) (map (behaviour w) procs))) = FAIL
                \<and> stop_on_fail a) \<and> delete_sam a
         then map Remove (filter (\<lambda>sam_ofn. sam_ofn \<noteq> dev_null)
                (sam_ofns a (entry_odir a c) tmpdir (c_name c)
                   (run_names_of a c nthreads nprocess (redo - idx)) (redo - idx)))
         else [])"
    and "snd (run_attempt w a tmpdir c nthreads nprocess ntpp rs redo idx) =
      (if classify (exitlevels (supervise (timeout a) (map (behaviour w) procs))) = FAIL \<and> stop_on_fail a
       then Some (SubprocessFailed (exitlevels (supervise (timeout a) (map (behaviour w) procs))))
       else None)"
  using assms by (simp_all add: run_attempt_def Let_def)


lemma build_cmds_nth:
  "build_cmds a c bdir ntpp rs outs errs sams is = Inr procs \<Longrightarrow>
   length procs = length is
   \<and> (\<forall>k<length is. build_cmd a c bdir ntpp rs outs errs sams (is ! k) = Inr (procs ! k))"
proof (induction "is" arbitrary: procs)
  case Nil
  then show ?case by simp
next
  case (Cons i "is")
  from Cons.prems obtain q qs where q: "build_cmd a c bdir ntpp rs outs errs sams i = Inr q"
    and qs: "build_cmds a c bdir ntpp rs outs errs sams is = Inr qs" and procs: "procs = q # qs"
    by (auto split: sum.splits)
  from Cons.IH [OF qs] q procs show ?case
    by (auto simp: nth_Cons split: nat.splits)
qed

subsection \<open>The small experiment, evaluated\<close>

lemmas ex_simps = ex_args_def ex_config_def ex_probe_def ex_world_def pe_str_def
  path_join3_def path_join_def endswith_def entry_odir_def dev_null_def touch_def

lemma ex_verify: "verify_index ex_probe ''idx'' ''bowtie'' = Inr False"
  by (simp add: verify_index_def tool_ext_def ex_probe_def)

lemma ex_prepare:
  "prepare_reads ex_probe (ex_args b) 1 0 ''tmp/v1/unp'' False = Inr [[''tmp/v1/unp/1.fq'']]"
  by (simp add: prepare_reads_def slice_fastq_def wcl_def Let_def ex_simps)

lemma ex_warm_procs:
  "attempt_procs (ex_args b) ''tmp'' ex_config 1 1 1 [[''tmp/v1/unp/1.fq'']] 2 =
     Inr [Start [''build/unp/v1/bowtie-align-s'', ''-p'', ''1'', ''idx'', ''-t'',
                 ''tmp/v1/unp/1.fq'', ''-S'', ''/dev/null''] ''/dev/null'' ''/dev/null'']"
  by (simp add: attempt_procs_def Let_def ex_simps run_names_of_def py_range_def run_name_of_def
     stdout_ofns_def stderr_ofns_def sam_ofns_def build_cmd_def start_worker_def aligner_cmd_def tool_exe_def
     nth_err_def str_int_def str_nat.simps digit_char_def)

lemma ex_final_procs:
  "attempt_procs (ex_args b) ''tmp'' ex_config 1 1 1 [[''tmp/v1/unp/1.fq'']] 1 =
     Inr [Start [''build/unp/v1/bowtie-align-s'', ''-p'', ''1'', ''idx'', ''-t'',
                 ''tmp/v1/unp/1.fq'', ''-S'', ''tmp/v1/unp/v1_unp_0_0_1_1/out.sam'']
            ''out/unp/v1/v1_unp_0_0_1_1.out'' ''out/unp/v1/v1_unp_0_0_1_1.err'']"
  by (simp add: attempt_procs_def Let_def ex_simps run_names_of_def py_range_def run_name_of_def
     stdout_ofns_def stderr_ofns_def sam_ofns_def sam_dir_def build_cmd_def start_worker_def aligner_cmd_def tool_exe_def
     nth_err_def str_int_def str_nat.simps digit_char_def)

lemma ex_supervise:
  "exitlevels (supervise 10 [\<lparr>run_time = 3, spawn_ok = True\<rparr>]) = [Some 0]"
  "sup_log (supervise 10 [\<lparr>run_time = 3, spawn_ok = True\<rparr>]) = []"
  "exitlevels (supervise 10 [\<lparr>run_time = 3, spawn_ok = False\<rparr>]) = [Some 1]"
  "sup_log (supervise 10 [\<lparr>run_time = 3, spawn_ok = False\<rparr>]) = []"
  "exitlevels (supervise 10 [\<lparr>run_time = 100, spawn_ok = True\<rparr>]) = [None]"
  "sup_log (supervise 10 [\<lparr>run_time = 100, spawn_ok = True\<rparr>]) = [StillAlive 0, Sigterm 0]"
  by (simp_all add: supervise_def sup_init_def join_one_def Let_def wrapper_end_def exitcode_def)

lemma ex_names:
  "run_names_of (ex_args b) ex_config 1 1 2 = [''v1_unp_0_0_1_2'']"
  "run_names_of (ex_args b) ex_config 1 1 1 = [''v1_unp_0_0_1_1'']"
  by (simp_all add: ex_simps run_names_of_def py_range_def run_name_of_def str_int_def
      str_nat.simps digit_char_def)

lemma ex_run_warm:
  "run_attempt (ex_world (ex_args b) 3 True) (ex_args b) ''tmp'' ex_config 1 1 1 [[''tmp/v1/unp/1.fq'']] 2 0 =
    ([OpenW ''out/unp/v1/v1_unp_0_0_1_2.top'', OpenW ''out/unp/v1/v1_unp_0_0_1_2.iostat'',
      Start [''build/unp/v1/bowtie-align-s'', ''-p'', ''1'', ''idx'', ''-t'',
             ''tmp/v1/unp/1.fq'', ''-S'', ''/dev/null''] ''/dev/null'' ''/dev/null'',
      System ''touch out/unp/v1/v1_unp_0_0_1_2.JOIN'',
      System ''touch out/unp/v1/v1_unp_0_0_1_2.SUCCEED''], None)"
  by (simp add: run_attempt_def Let_def ex_warm_procs ex_names ex_supervise)
     (simp add: ex_simps ex_supervise sam_mkdirs_def telemetry_start_def telemetry_kill_def
        classify_def outcome_ext_def sam_ofns_def)

lemma ex_run_final:
  "run_attempt (ex_world (ex_args b) 3 True) (ex_args b) ''tmp'' ex_config 1 1 1 [[''tmp/v1/unp/1.fq'']] 2 1 =
    ([Mkdir ''tmp/v1/unp/v1_unp_0_0_1_1'',
      OpenW ''out/unp/v1/v1_unp_0_0_1_1.top'', OpenW ''out/unp/v1/v1_unp_0_0_1_1.iostat'',
      Start [''build/unp/v1/bowtie-align-s'', ''-p'', ''1'', ''idx'', ''-t'',
             ''tmp/v1/unp/1.fq'', ''-S'', ''tmp/v1/unp/v1_unp_0_0_1_1/out.sam'']
        ''out/unp/v1/v1_unp_0_0_1_1.out'' ''out/unp/v1/v1_unp_0_0_1_1.err'',
      System ''touch out/unp/v1/v1_unp_0_0_1_1.JOIN'',
      System ''touch out/unp/v1/v1_unp_0_0_1_1.SUCCEED''], None)"
  by (simp add: run_attempt_def Let_def ex_final_procs ex_names ex_supervise)
     (simp add: ex_simps ex_supervise sam_mkdirs_def sam_dir_def telemetry_start_def
        telemetry_kill_def classify_def outcome_ext_def sam_ofns_def)

lemma ex_run_warm_fail:
  "run_attempt (ex_world (ex_args True) 3 False) (ex_args True) ''tmp'' ex_config 1 1 1
      [[''tmp/v1/unp/1.fq'']] 2 0 =
    ([OpenW ''out/unp/v1/v1_unp_0_0_1_2.top'', OpenW ''out/unp/v1/v1_unp_0_0_1_2.iostat'',
      Start [''build/unp/v1/bowtie-align-s'', ''-p'', ''1'', ''idx'', ''-t'',
             ''tmp/v1/unp/1.fq'', ''-S'', ''/dev/null''] ''/dev/null'' ''/dev/null'',
      System ''touch out/unp/v1/v1_unp_0_0_1_2.JOIN'',
      System ''touch out/unp/v1/v1_unp_0_0_1_2.FAIL''], Some (SubprocessFailed [Some 1]))"
  by (simp add: run_attempt_def Let_def ex_warm_procs ex_names ex_supervise)
     (simp add: ex_simps ex_supervise sam_mkdirs_def telemetry_start_def telemetry_kill_def
        classify_def outcome_ext_def sam_ofns_def)

lemma ex_head:
  "entry_head (ex_world (ex_args b) secs ok) (ex_args b) ex_config sweep_init =
     (\<lparr>indexes_verified = {''bowtie''}, read_set = None, last_mp_mt = None, last_blocked = False,
       trace = [Mkdir ''out/unp/v1'', VerifyIndex ''idx'' ''bowtie'']\<rparr>, None)"
  by (simp add: entry_head_def check_index_def Let_def sweep_init_def ex_verify [unfolded ex_probe_def]
      ex_simps)

lemma ex_regime:
  "enter_regime (ex_world (ex_args b) secs ok) (ex_args b) ''tmp'' 1 ex_config False
     \<lparr>indexes_verified = {''bowtie''}, read_set = None, last_mp_mt = None, last_blocked = False,
      trace = [Mkdir ''out/unp/v1'', VerifyIndex ''idx'' ''bowtie'']\<rparr> =
     (\<lparr>indexes_verified = {''bowtie''}, read_set = Some [[''tmp/v1/unp/1.fq'']], last_mp_mt = Some 0,
       last_blocked = False,
       trace = [Mkdir ''out/unp/v1'', VerifyIndex ''idx'' ''bowtie'', Mkdir ''tmp/v1/unp'',
                PrepareReads 1 0 ''tmp/v1/unp'' False]\<rparr>, None)"
proof -
  have "partitioner (ex_world (ex_args b) secs ok) 1 0 ''tmp/v1/unp'' False = Inr [[''tmp/v1/unp/1.fq'']]"
    by (simp add: ex_world_def ex_prepare)
  then show ?thesis
    by (simp add: enter_regime_def Let_def purge_def)
       (simp add: ex_simps)
qed

lemma ex_tests:
  "\<not> skipped 1 ex_config" "is_blocked ex_config = False"
  "regime_changed ex_config \<lparr>indexes_verified = {''bowtie''}, read_set = None, last_mp_mt = None,
      last_blocked = False, trace = t\<rparr>"
  by (simp_all add: skipped_def is_blocked_def regime_changed_def ex_config_def)

lemma ex_sweep_entry:
  "sweep_entry (ex_world (ex_args b) secs ok) (ex_args b) ''tmp'' 1 ex_config sweep_init =
     run_pair (ex_world (ex_args b) secs ok) (ex_args b) ''tmp'' 1 ex_config 2
       \<lparr>indexes_verified = {''bowtie''}, read_set = Some [[''tmp/v1/unp/1.fq'']], last_mp_mt = Some 0,
        last_blocked = False,
        trace = [Mkdir ''out/unp/v1'', VerifyIndex ''idx'' ''bowtie'', Mkdir ''tmp/v1/unp'',
                 PrepareReads 1 0 ''tmp/v1/unp'' False]\<rparr>"
  by (simp add: sweep_entry_def ex_head ex_tests ex_regime)

lemma ex_config_mp: "c_mp_mt ex_config = 0"
  by (simp add: ex_config_def)

lemma ex_sweep_ok:
  "sweep (ex_world (ex_args b) 3 True) (ex_args b) ''tmp'' [ex_config] [1] =
     ([Mkdir ''out/unp/v1'', VerifyIndex ''idx'' ''bowtie'', Mkdir ''tmp/v1/unp'',
       PrepareReads 1 0 ''tmp/v1/unp'' False,
       OpenW ''out/unp/v1/v1_unp_0_0_1_2.top'', OpenW ''out/unp/v1/v1_unp_0_0_1_2.iostat'',
       Start [''build/unp/v1/bowtie-align-s'', ''-p'', ''1'', ''idx'', ''-t'',
              ''tmp/v1/unp/1.fq'', ''-S'', ''/dev/null''] ''/dev/null'' ''/dev/null'',
       System ''touch out/unp/v1/v1_unp_0_0_1_2.JOIN'',
       System ''touch out/unp/v1/v1_unp_0_0_1_2.SUCCEED'',
       Mkdir ''tmp/v1/unp/v1_unp_0_0_1_1'',
       OpenW ''out/unp/v1/v1_unp_0_0_1_1.top'', OpenW ''out/unp/v1/v1_unp_0_0_1_1.iostat'',
       Start [''build/unp/v1/bowtie-align-s'', ''-p'', ''1'', ''idx'', ''-t'',
              ''tmp/v1/unp/1.fq'', ''-S'', ''tmp/v1/unp/v1_unp_0_0_1_1/out.sam'']
         ''out/unp/v1/v1_unp_0_0_1_1.out'' ''out/unp/v1/v1_unp_0_0_1_1.err'',
       System ''touch out/unp/v1/v1_unp_0_0_1_1.JOIN'',
       System ''touch out/unp/v1/v1_unp_0_0_1_1.SUCCEED'',
       Remove ''tmp/v1/unp/1.fq''], None)"
proof -
  have "sweep_init\<lparr>last_mp_mt := None, last_blocked := False\<rparr> = sweep_init"
    by (simp add: sweep_init_def)
  then show ?thesis
    by (simp add: sweep_def ex_sweep_entry run_pair_def ex_config_mp py_range_2
        ex_run_warm ex_run_final purge_def)
qed

lemma ex_sweep_fail:
  "sweep (ex_world (ex_args True) 3 False) (ex_args True) ''tmp'' [ex_config] [1] =
     ([Mkdir ''out/unp/v1'', VerifyIndex ''idx'' ''bowtie'', Mkdir ''tmp/v1/unp'',
       PrepareReads 1 0 ''tmp/v1/unp'' False,
       OpenW ''out/unp/v1/v1_unp_0_0_1_2.top'', OpenW ''out/unp/v1/v1_unp_0_0_1_2.iostat'',
       Start [''build/unp/v1/bowtie-align-s'', ''-p'', ''1'', ''idx'', ''-t'',
              ''tmp/v1/unp/1.fq'', ''-S'', ''/dev/null''] ''/dev/null'' ''/dev/null'',
       System ''touch out/unp/v1/v1_unp_0_0_1_2.JOIN'',
       System ''touch out/unp/v1/v1_unp_0_0_1_2.FAIL''], Some (SubprocessFailed [Some 1]))"
proof -
  have "sweep_init\<lparr>last_mp_mt := None, last_blocked := False\<rparr> = sweep_init"
    by (simp add: sweep_init_def)
  then show ?thesis
    by (simp add: sweep_def ex_sweep_entry run_pair_def ex_config_mp py_range_2 ex_run_warm_fail)
qed

theorem supervise_exitlevels_example:
  "sup_log (supervise 10 [\<lparr>run_time = 3, spawn_ok = True\<rparr>]) = []"
  by (simp add: ex_supervise)






subsection \<open>The sweep controller\<close>

lemma check_index_ignores_result:
  "verify_index (fs w) (index a) (c_tool c) = Inr b \<Longrightarrow>
   check_index w a c s =
     (s\<lparr>trace := trace s @ [VerifyIndex (index a) (c_tool c)],
        indexes_verified := insert (c_tool c) (indexes_verified s)\<rparr>, None)"
  by (simp add: check_index_def Let_def)

text \<open>
  C2 (what the code does at the failing input). In the small experiment no index file
  exists and \<open>verify_index\<close> returns \<open>False\<close>; the sweep raises nothing, and it starts the
  warm-up run and the recorded run of the entry.
\<close>

theorem index_check_result_dropped:
  "verify_index (fs (ex_world (ex_args False) 3 True)) (index (ex_args False)) (c_tool ex_config)
     = Inr False
   \<and> snd (sweep (ex_world (ex_args False) 3 True) (ex_args False) ''tmp'' [ex_config] [1]) = None
   \<and> Start [''build/unp/v1/bowtie-align-s'', ''-p'', ''1'', ''idx'', ''-t'',
            ''tmp/v1/unp/1.fq'', ''-S'', ''tmp/v1/unp/v1_unp_0_0_1_1/out.sam'']
        ''out/unp/v1/v1_unp_0_0_1_1.out'' ''out/unp/v1/v1_unp_0_0_1_1.err''
      \<in> set (fst (sweep (ex_world (ex_args False) 3 True) (ex_args False) ''tmp'' [ex_config] [1]))"
proof -
  have "verify_index (fs (ex_world (ex_args False) 3 True)) (index (ex_args False)) (c_tool ex_config)
     = Inr False"
    using ex_verify by (simp add: ex_world_def ex_args_def ex_config_def)
  then show ?thesis
    by (simp add: ex_sweep_ok)
qed

theorem warm_up_counterexample:
  "touch ''out/unp/v1/v1_unp_0_0_1_2.JOIN''
     \<in> set (fst (run_attempt (ex_world (ex_args False) 3 True) (ex_args False) ''tmp'' ex_config 1 1 1
                   [[''tmp/v1/unp/1.fq'']] 2 0))
   \<and> touch ''out/unp/v1/v1_unp_0_0_1_2.SUCCEED''
     \<in> set (fst (run_attempt (ex_world (ex_args False) 3 True) (ex_args False) ''tmp'' ex_config 1 1 1
                   [[''tmp/v1/unp/1.fq'']] 2 0))"
  by (simp add: ex_run_warm touch_def)

lemma run_pair_frame:
  assumes "run_pair w a tmpdir n c redo s = (s', r)"
  shows "read_set s' = read_set s \<and> last_mp_mt s' = last_mp_mt s \<and> last_blocked s' = last_blocked s
         \<and> indexes_verified s' = indexes_verified s \<and> (\<exists>evs. trace s' = trace s @ evs)"
  using assms by (auto simp: run_pair_def Let_def split: if_splits option.splits prod.splits)

lemma entry_head_frame:
  assumes "entry_head w a c s = (s1, r)"
  shows "read_set s1 = read_set s \<and> last_mp_mt s1 = last_mp_mt s \<and> last_blocked s1 = last_blocked s
         \<and> (\<exists>evs. trace s1 = trace s @ evs)"
  using assms
  by (auto simp: entry_head_def check_index_def Let_def split: if_splits sum.splits)

lemma enter_regime_result:
  assumes "enter_regime w a tmpdir n c b s = (s2, r)"
  shows "trace s2 = trace s @ purge (read_set s)
           @ [Mkdir (path_join3 tmpdir (c_name c) (pe_str a)),
              PrepareReads n (c_mp_mt c) (path_join3 tmpdir (c_name c) (pe_str a)) b]
         \<and> last_blocked s2 = last_blocked s
         \<and> (case r of
              Some e \<Rightarrow> partitioner w n (c_mp_mt c) (path_join3 tmpdir (c_name c) (pe_str a)) b = Inl e
            | None \<Rightarrow> \<exists>rs. partitioner w n (c_mp_mt c) (path_join3 tmpdir (c_name c) (pe_str a)) b = Inr rs
                        \<and> read_set s2 = Some rs \<and> last_mp_mt s2 = Some (c_mp_mt c))"
  using assms by (auto simp: enter_regime_def Let_def split: sum.splits)

lemma entry_head_trace:
  assumes "entry_head w a c s = (s1, r)"
  shows "trace s1 = trace s
           @ (if path_exists (fs w) (entry_odir a c) then [] else [Mkdir (entry_odir a c)])
           @ (if c_tool c \<notin> indexes_verified s then [VerifyIndex (index a) (c_tool c)] else [])"
  using assms
  by (auto simp: entry_head_def check_index_def Let_def split: if_splits sum.splits)

lemma regime_step_trace:
  assumes "(if regime_changed c s1 then enter_regime w a tmpdir n c (is_blocked c) s1
            else (s1, None)) = (s2, r)"
  shows "trace s2 = trace s1
           @ (if regime_changed c s1
              then purge (read_set s1)
                   @ [Mkdir (path_join3 tmpdir (c_name c) (pe_str a)),
                      PrepareReads n (c_mp_mt c) (path_join3 tmpdir (c_name c) (pe_str a)) (is_blocked c)]
              else [])"
proof (cases "regime_changed c s1")
  case True
  with assms have "enter_regime w a tmpdir n c (is_blocked c) s1 = (s2, r)" by simp
  from enter_regime_result [OF this] True show ?thesis by simp
next
  case False
  with assms show ?thesis by simp
qed

lemma run_attempts_two:
  "run_attempts w a tmpdir c n nprocess ntpp rs redo [0, 1] =
     (fst (run_attempt w a tmpdir c n nprocess ntpp rs redo 0)
        @ (if snd (run_attempt w a tmpdir c n nprocess ntpp rs redo 0) = None
           then fst (run_attempt w a tmpdir c n nprocess ntpp rs redo 1) else []),
      if snd (run_attempt w a tmpdir c n nprocess ntpp rs redo 0) = None
      then snd (run_attempt w a tmpdir c n nprocess ntpp rs redo 1)
      else snd (run_attempt w a tmpdir c n nprocess ntpp rs redo 0))"
  by (cases "run_attempt w a tmpdir c n nprocess ntpp rs redo 0";
      cases "run_attempt w a tmpdir c n nprocess ntpp rs redo 1")
     (auto split: option.splits)

lemma run_attempts_one:
  "run_attempts w a tmpdir c n nprocess ntpp rs redo [0] =
     (fst (run_attempt w a tmpdir c n nprocess ntpp rs redo 0),
      snd (run_attempt w a tmpdir c n nprocess ntpp rs redo 0))"
  by (cases "run_attempt w a tmpdir c n nprocess ntpp rs redo 0") (auto split: option.splits)

lemma run_pair_two:
  assumes "read_set s = Some rs"
    and "1 \<le> (if c_mp_mt c = 0 then 1 else n div c_mp_mt c)"
  shows "run_pair w a tmpdir n c 2 s =
     (s\<lparr>trace := trace s
          @ fst (run_attempt w a tmpdir c n (if c_mp_mt c = 0 then 1 else n div c_mp_mt c)
                   (if c_mp_mt c = 0 then n else c_mp_mt c) rs 2 0)
          @ (if snd (run_attempt w a tmpdir c n (if c_mp_mt c = 0 then 1 else n div c_mp_mt c)
                       (if c_mp_mt c = 0 then n else c_mp_mt c) rs 2 0) = None
             then fst (run_attempt w a tmpdir c n (if c_mp_mt c = 0 then 1 else n div c_mp_mt c)
                         (if c_mp_mt c = 0 then n else c_mp_mt c) rs 2 1)
             else [])\<rparr>,
      if snd (run_attempt w a tmpdir c n (if c_mp_mt c = 0 then 1 else n div c_mp_mt c)
                (if c_mp_mt c = 0 then n else c_mp_mt c) rs 2 0) = None
      then snd (run_attempt w a tmpdir c n (if c_mp_mt c = 0 then 1 else n div c_mp_mt c)
                  (if c_mp_mt c = 0 then n else c_mp_mt c) rs 2 1)
      else snd (run_attempt w a tmpdir c n (if c_mp_mt c = 0 then 1 else n div c_mp_mt c)
                  (if c_mp_mt c = 0 then n else c_mp_mt c) rs 2 0))"
  using assms unfolding run_pair_def Let_def py_range_2 run_attempts_two by simp

lemma run_pair_one:
  assumes "read_set s = Some rs"
    and "1 \<le> (if c_mp_mt c = 0 then 1 else n div c_mp_mt c)"
  shows "run_pair w a tmpdir n c 1 s =
     (s\<lparr>trace := trace s
          @ fst (run_attempt w a tmpdir c n (if c_mp_mt c = 0 then 1 else n div c_mp_mt c)
                   (if c_mp_mt c = 0 then n else c_mp_mt c) rs 1 0)\<rparr>,
      snd (run_attempt w a tmpdir c n (if c_mp_mt c = 0 then 1 else n div c_mp_mt c)
             (if c_mp_mt c = 0 then n else c_mp_mt c) rs 1 0))"
  using assms unfolding run_pair_def Let_def py_range_1 run_attempts_one
  by (simp add: case_prod_unfold)

lemma build_cmd_worker:
  assumes "build_cmd a c bdir ntpp rs outs errs sams i = Inr p"
  shows "\<exists>exe. tool_exe (c_tool c) = Inr exe
           \<and> p = start_worker a c bdir exe ntpp (rs ! i ! 0) (if m2 a \<noteq> None then rs ! i ! 1 else [])
                   (outs ! i) (errs ! i) (sams ! i)"
  using assms by (auto simp: build_cmd_def nth_err_def split: sum.splits if_splits)

lemma run_names_length: "length (run_names_of a c nthreads nprocess idx_rev) = nat nprocess"
  by (simp add: run_names_of_def py_range_def)

lemma run_names_nth:
  "i < nat nprocess \<Longrightarrow>
   run_names_of a c nthreads nprocess idx_rev ! i =
     run_name_of (c_name c) (pe_str a) (c_mp_mt c) (int i) nthreads idx_rev"
  by (simp add: run_names_of_def py_range_def)

lemma attempt_workers:
  assumes "attempt_procs a tmpdir c n nprocess ntpp rs idx_rev = Inr procs"
  shows "length procs = nat nprocess"
    and "i < nat nprocess \<Longrightarrow>
         \<exists>exe. tool_exe (c_tool c) = Inr exe
           \<and> procs ! i =
               start_worker a c (path_join3 (build_dir a) (pe_str a) (c_name c)) exe ntpp
                 (rs ! i ! 0) (if m2 a \<noteq> None then rs ! i ! 1 else [])
                 (if idx_rev = 1
                  then path_join (entry_odir a c)
                         (run_name_of (c_name c) (pe_str a) (c_mp_mt c) (int i) n idx_rev @ ''.out'')
                  else dev_null)
                 (if idx_rev = 1
                  then path_join (entry_odir a c)
                         (run_name_of (c_name c) (pe_str a) (c_mp_mt c) (int i) n idx_rev @ ''.err'')
                  else dev_null)
                 (if idx_rev = 1 \<and> \<not> sam_dev_null a
                  then path_join
                         (sam_dir (if sam_output_dir a then entry_odir a c else tmpdir) (c_name c)
                            (pe_str a) (run_name_of (c_name c) (pe_str a) (c_mp_mt c) (int i) n idx_rev))
                         ''out.sam''
                  else dev_null)"
proof -
  let ?names = "run_names_of a c n nprocess idx_rev"
  let ?outs = "stdout_ofns a (entry_odir a c) ?names idx_rev"
  let ?errs = "stderr_ofns a (entry_odir a c) ?names idx_rev"
  let ?sams = "sam_ofns a (entry_odir a c) tmpdir (c_name c) ?names idx_rev"
  from assms have b: "build_cmds a c (path_join3 (build_dir a) (pe_str a) (c_name c)) ntpp rs
      ?outs ?errs ?sams [0..<nat nprocess] = Inr procs"
    by (simp add: attempt_procs_def Let_def)
  from build_cmds_nth [OF b] show len: "length procs = nat nprocess" by simp
  assume i: "i < nat nprocess"
  with build_cmds_nth [OF b]
  have "build_cmd a c (path_join3 (build_dir a) (pe_str a) (c_name c)) ntpp rs ?outs ?errs ?sams i
      = Inr (procs ! i)"
    by auto
  from build_cmd_worker [OF this] obtain exe where exe: "tool_exe (c_tool c) = Inr exe"
    and p: "procs ! i = start_worker a c (path_join3 (build_dir a) (pe_str a) (c_name c)) exe ntpp
               (rs ! i ! 0) (if m2 a \<noteq> None then rs ! i ! 1 else []) (?outs ! i) (?errs ! i) (?sams ! i)"
    by blast
  from i have sinks:
    "?outs ! i = (if idx_rev = 1
                  then path_join (entry_odir a c)
                         (run_name_of (c_name c) (pe_str a) (c_mp_mt c) (int i) n idx_rev @ ''.out'')
                  else dev_null)"
    "?errs ! i = (if idx_rev = 1
                  then path_join (entry_odir a c)
                         (run_name_of (c_name c) (pe_str a) (c_mp_mt c) (int i) n idx_rev @ ''.err'')
                  else dev_null)"
    "?sams ! i = (if idx_rev = 1 \<and> \<not> sam_dev_null a
                  then path_join
                         (sam_dir (if sam_output_dir a then entry_odir a c else tmpdir) (c_name c)
                            (pe_str a) (run_name_of (c_name c) (pe_str a) (c_mp_mt c) (int i) n idx_rev))
                         ''out.sam''
                  else dev_null)"
    by (simp_all add: stdout_ofns_def stderr_ofns_def sam_ofns_def Let_def run_names_length run_names_nth)
  from exe p show "\<exists>exe. tool_exe (c_tool c) = Inr exe
           \<and> procs ! i =
               start_worker a c (path_join3 (build_dir a) (pe_str a) (c_name c)) exe ntpp
                 (rs ! i ! 0) (if m2 a \<noteq> None then rs ! i ! 1 else [])
                 (if idx_rev = 1
                  then path_join (entry_odir a c)
                         (run_name_of (c_name c) (pe_str a) (c_mp_mt c) (int i) n idx_rev @ ''.out'')
                  else dev_null)
                 (if idx_rev = 1
                  then path_join (entry_odir a c)
                         (run_name_of (c_name c) (pe_str a) (c_mp_mt c) (int i) n idx_rev @ ''.err'')
                  else dev_null)
                 (if idx_rev = 1 \<and> \<not> sam_dev_null a
                  then path_join
                         (sam_dir (if sam_output_dir a then entry_odir a c else tmpdir) (c_name c)
                            (pe_str a) (run_name_of (c_name c) (pe_str a) (c_mp_mt c) (int i) n idx_rev))
                         ''out.sam''
                  else dev_null)"
    unfolding sinks by blast
qed

lemma sweep_entry_repetitions:
  assumes "entry_head w a c s = (s1, None) \<and> \<not> skipped n c
      \<and> (if regime_changed c s1 then enter_regime w a tmpdir n c (is_blocked c) s1
         else (s1, None)) = (s2, None)
      \<and> read_set s2 = Some rs
      \<and> nprocess = (if c_mp_mt c = 0 then 1 else n div c_mp_mt c) \<and> 1 \<le> nprocess
      \<and> ntpp = (if c_mp_mt c = 0 then n else c_mp_mt c)"
  shows "trace s1 = trace s
            @ (if path_exists (fs w) (entry_odir a c) then [] else [Mkdir (entry_odir a c)])
            @ (if c_tool c \<notin> indexes_verified s then [VerifyIndex (index a) (c_tool c)] else [])
        \<and> trace s2 = trace s1
            @ (if regime_changed c s1
               then purge (read_set s1)
                    @ [Mkdir (path_join3 tmpdir (c_name c) (pe_str a)),
                       PrepareReads n (c_mp_mt c) (path_join3 tmpdir (c_name c) (pe_str a)) (is_blocked c)]
               else [])
        \<and> sweep_entry w a tmpdir n c s =
            (if c_tool c \<notin> indexes_verified s \<or> regime_changed c s1
             then (s2\<lparr>last_blocked := is_blocked c,
                      trace := trace s2
                        @ fst (run_attempt w a tmpdir c n nprocess ntpp rs 2 0)
                        @ (if snd (run_attempt w a tmpdir c n nprocess ntpp rs 2 0) = None
                           then fst (run_attempt w a tmpdir c n nprocess ntpp rs 2 1) else [])\<rparr>,
                   if snd (run_attempt w a tmpdir c n nprocess ntpp rs 2 0) = None
                   then snd (run_attempt w a tmpdir c n nprocess ntpp rs 2 1)
                   else snd (run_attempt w a tmpdir c n nprocess ntpp rs 2 0))
             else (s2\<lparr>last_blocked := is_blocked c,
                      trace := trace s2 @ fst (run_attempt w a tmpdir c n nprocess ntpp rs 1 0)\<rparr>,
                   snd (run_attempt w a tmpdir c n nprocess ntpp rs 1 0)))"
proof -
  from assms have head: "entry_head w a c s = (s1, None)" and ns: "\<not> skipped n c"
    and reg: "(if regime_changed c s1 then enter_regime w a tmpdir n c (is_blocked c) s1
         else (s1, None)) = (s2, None)"
    and rs: "read_set s2 = Some rs"
    and np: "nprocess = (if c_mp_mt c = 0 then 1 else n div c_mp_mt c)" "1 \<le> nprocess"
    and nt: "ntpp = (if c_mp_mt c = 0 then n else c_mp_mt c)"
    by blast+
  have rs': "read_set (s2\<lparr>last_blocked := is_blocked c\<rparr>) = Some rs" using rs by simp
  have np': "1 \<le> (if c_mp_mt c = 0 then 1 else n div c_mp_mt c)" using np by simp
  have se: "sweep_entry w a tmpdir n c s =
      run_pair w a tmpdir n c (if c_tool c \<notin> indexes_verified s \<or> regime_changed c s1 then 2 else 1)
        (s2\<lparr>last_blocked := is_blocked c\<rparr>)"
    using head ns reg by (simp add: sweep_entry_def)
  have 3: "sweep_entry w a tmpdir n c s =
            (if c_tool c \<notin> indexes_verified s \<or> regime_changed c s1
             then (s2\<lparr>last_blocked := is_blocked c,
                      trace := trace s2
                        @ fst (run_attempt w a tmpdir c n nprocess ntpp rs 2 0)
                        @ (if snd (run_attempt w a tmpdir c n nprocess ntpp rs 2 0) = None
                           then fst (run_attempt w a tmpdir c n nprocess ntpp rs 2 1) else [])\<rparr>,
                   if snd (run_attempt w a tmpdir c n nprocess ntpp rs 2 0) = None
                   then snd (run_attempt w a tmpdir c n nprocess ntpp rs 2 1)
                   else snd (run_attempt w a tmpdir c n nprocess ntpp rs 2 0))
             else (s2\<lparr>last_blocked := is_blocked c,
                      trace := trace s2 @ fst (run_attempt w a tmpdir c n nprocess ntpp rs 1 0)\<rparr>,
                   snd (run_attempt w a tmpdir c n nprocess ntpp rs 1 0)))"
  proof (cases "c_tool c \<notin> indexes_verified s \<or> regime_changed c s1")
    case True
    then show ?thesis
      unfolding se np(1) nt using run_pair_two [OF rs' np', of w a tmpdir] by simp
  next
    case False
    then show ?thesis
      unfolding se np(1) nt using run_pair_one [OF rs' np', of w a tmpdir] by simp
  qed
  from entry_head_trace [OF head] regime_step_trace [OF reg] 3 show ?thesis
    by (intro conjI)
qed

lemma run_attempt_contents:
  assumes "attempt_procs a tmpdir c n nprocess ntpp rs (redo - idx) = Inr procs"
  shows "length procs = nat nprocess
        \<and> (\<forall>i<nat nprocess.
              \<exists>exe. tool_exe (c_tool c) = Inr exe
                \<and> procs ! i =
                    start_worker a c (path_join3 (build_dir a) (pe_str a) (c_name c)) exe ntpp
                      (rs ! i ! 0) (if m2 a \<noteq> None then rs ! i ! 1 else [])
                      (if redo - idx = 1
                       then path_join (entry_odir a c)
                              (run_name_of (c_name c) (pe_str a) (c_mp_mt c) (int i) n (redo - idx) @ ''.out'')
                       else dev_null)
                      (if redo - idx = 1
                       then path_join (entry_odir a c)
                              (run_name_of (c_name c) (pe_str a) (c_mp_mt c) (int i) n (redo - idx) @ ''.err'')
                       else dev_null)
                      (if redo - idx = 1 \<and> \<not> sam_dev_null a
                       then path_join
                              (sam_dir (if sam_output_dir a then entry_odir a c else tmpdir) (c_name c)
                                 (pe_str a)
                                 (run_name_of (c_name c) (pe_str a) (c_mp_mt c) (int i) n (redo - idx)))
                              ''out.sam''
                       else dev_null))
        \<and> fst (run_attempt w a tmpdir c n nprocess ntpp rs redo idx) =
            (if redo - idx = 1 \<and> \<not> sam_dev_null a
             then map (\<lambda>runname. Mkdir (sam_dir (if sam_output_dir a then entry_odir a c else tmpdir)
                                          (c_name c) (pe_str a) runname))
                    (run_names_of a c n nprocess (redo - idx))
             else [])
            @ telemetry_start w
                (path_join (entry_odir a c) (hd (run_names_of a c n nprocess (redo - idx)) @ ''.iostat''))
                (path_join (entry_odir a c) (hd (run_names_of a c n nprocess (redo - idx)) @ ''.top''))
            @ procs
            @ sup_log (supervise (timeout a) (map (behaviour w) procs)) @ telemetry_kill w
            @ [touch (path_join (entry_odir a c)
                        (hd (run_names_of a c n nprocess (redo - idx)) @ ''.JOIN'')),
               touch (path_join (entry_odir a c)
                        (hd (run_names_of a c n nprocess (redo - idx))
                           @ outcome_ext (classify (exitlevels
                                (supervise (timeout a) (map (behaviour w) procs))))))]
            @ (if \<not> (classify (exitlevels (supervise (timeout a) (map (behaviour w) procs))) = FAIL
                      \<and> stop_on_fail a) \<and> delete_sam a \<and> redo - idx = 1 \<and> \<not> sam_dev_null a
               then map Remove (filter (\<lambda>sam_ofn. sam_ofn \<noteq> dev_null)
                      (map (\<lambda>runname. path_join
                                (sam_dir (if sam_output_dir a then entry_odir a c else tmpdir)
                                   (c_name c) (pe_str a) runname) ''out.sam'')
                         (run_names_of a c n nprocess (redo - idx))))
               else [])
        \<and> snd (run_attempt w a tmpdir c n nprocess ntpp rs redo idx) =
            (if classify (exitlevels (supervise (timeout a) (map (behaviour w) procs))) = FAIL
                \<and> stop_on_fail a
             then Some (SubprocessFailed (exitlevels (supervise (timeout a) (map (behaviour w) procs))))
             else None)"
proof -
  note w = attempt_workers [OF assms]
  have 1: "\<forall>i<nat nprocess.
              \<exists>exe. tool_exe (c_tool c) = Inr exe
                \<and> procs ! i =
                    start_worker a c (path_join3 (build_dir a) (pe_str a) (c_name c)) exe ntpp
                      (rs ! i ! 0) (if m2 a \<noteq> None then rs ! i ! 1 else [])
                      (if redo - idx = 1
                       then path_join (entry_odir a c)
                              (run_name_of (c_name c) (pe_str a) (c_mp_mt c) (int i) n (redo - idx) @ ''.out'')
                       else dev_null)
                      (if redo - idx = 1
                       then path_join (entry_odir a c)
                              (run_name_of (c_name c) (pe_str a) (c_mp_mt c) (int i) n (redo - idx) @ ''.err'')
                       else dev_null)
                      (if redo - idx = 1 \<and> \<not> sam_dev_null a
                       then path_join
                              (sam_dir (if sam_output_dir a then entry_odir a c else tmpdir) (c_name c)
                                 (pe_str a)
                                 (run_name_of (c_name c) (pe_str a) (c_mp_mt c) (int i) n (redo - idx)))
                              ''out.sam''
                       else dev_null)"
    using w(2) by blast
  have m: "sam_mkdirs a (entry_odir a c) tmpdir (c_name c) (run_names_of a c n nprocess (redo - idx))
        (redo - idx) =
      (if redo - idx = 1 \<and> \<not> sam_dev_null a
       then map (\<lambda>runname. Mkdir (sam_dir (if sam_output_dir a then entry_odir a c else tmpdir)
                                    (c_name c) (pe_str a) runname))
              (run_names_of a c n nprocess (redo - idx))
       else [])"
    by (simp add: sam_mkdirs_def Let_def)
  have r: "(if \<not> (classify (exitlevels (supervise (timeout a) (map (behaviour w) procs))) = FAIL
                \<and> stop_on_fail a) \<and> delete_sam a
         then map Remove (filter (\<lambda>sam_ofn. sam_ofn \<noteq> dev_null)
                (sam_ofns a (entry_odir a c) tmpdir (c_name c)
                   (run_names_of a c n nprocess (redo - idx)) (redo - idx)))
         else []) =
      (if \<not> (classify (exitlevels (supervise (timeout a) (map (behaviour w) procs))) = FAIL
                      \<and> stop_on_fail a) \<and> delete_sam a \<and> redo - idx = 1 \<and> \<not> sam_dev_null a
               then map Remove (filter (\<lambda>sam_ofn. sam_ofn \<noteq> dev_null)
                      (map (\<lambda>runname. path_join
                                (sam_dir (if sam_output_dir a then entry_odir a c else tmpdir)
                                   (c_name c) (pe_str a) runname) ''out.sam'')
                         (run_names_of a c n nprocess (redo - idx))))
               else [])"
  proof (cases "redo - idx = 1 \<and> \<not> sam_dev_null a")
    case True
    then show ?thesis by (simp add: sam_ofns_def Let_def)
  next
    case False
    have "filter (\<lambda>sam_ofn. sam_ofn \<noteq> dev_null) (map (\<lambda>_. dev_null) xs) = []" for xs :: "string list"
      by (induction xs) simp_all
    with False show ?thesis by (auto simp: sam_ofns_def)
  qed
  note e = run_attempt_events [OF assms, of w, unfolded m r]
  from w(1) 1 e show ?thesis by (intro conjI)
qed

text \<open>
  C3 (amended). Take a pair that is not skipped, whose index check and read preparation
  raise nothing, and whose process count is at least one. The index is verified exactly
  when the tool is not yet among the verified ones, and the reads are prepared exactly
  when the regime changed; if either happened the pair is run twice, first the attempt
  with repetition index 2 (the warm-up) and then, unless the warm-up raised, the attempt
  with repetition index 1; otherwise it is run once, with repetition index 1. An attempt
  whose repetition index is not 1 starts every worker with \<^verbatim>\<open>/dev/null\<close> as standard
  output, standard error and alignment file, creates no alignment directory and removes
  nothing; the attempt with repetition index 1 sends them to the \<^verbatim>\<open>.out\<close> and \<^verbatim>\<open>.err\<close>
  files of the worker's run name and to \<^verbatim>\<open>out.sam\<close> in the run's directory (or to
  \<^verbatim>\<open>/dev/null\<close> with \<^verbatim>\<open>--sam-dev-null\<close>). Every attempt that starts its workers, the
  warm-up included, then writes the \<^verbatim>\<open>JOIN\<close> sentinel and the sentinel of its outcome
  under its own run name.
\<close>

theorem warm_up_policy:
  "(entry_head w a c s = (s1, None) \<and> \<not> skipped n c
      \<and> (if regime_changed c s1 then enter_regime w a tmpdir n c (is_blocked c) s1
         else (s1, None)) = (s2, None)
      \<and> read_set s2 = Some rs
      \<and> nprocess = (if c_mp_mt c = 0 then 1 else n div c_mp_mt c) \<and> 1 \<le> nprocess
      \<and> ntpp = (if c_mp_mt c = 0 then n else c_mp_mt c)
     \<longrightarrow> trace s1 = trace s
            @ (if path_exists (fs w) (entry_odir a c) then [] else [Mkdir (entry_odir a c)])
            @ (if c_tool c \<notin> indexes_verified s then [VerifyIndex (index a) (c_tool c)] else [])
        \<and> trace s2 = trace s1
            @ (if regime_changed c s1
               then purge (read_set s1)
                    @ [Mkdir (path_join3 tmpdir (c_name c) (pe_str a)),
                       PrepareReads n (c_mp_mt c) (path_join3 tmpdir (c_name c) (pe_str a)) (is_blocked c)]
               else [])
        \<and> sweep_entry w a tmpdir n c s =
            (if c_tool c \<notin> indexes_verified s \<or> regime_changed c s1
             then (s2\<lparr>last_blocked := is_blocked c,
                      trace := trace s2
                        @ fst (run_attempt w a tmpdir c n nprocess ntpp rs 2 0)
                        @ (if snd (run_attempt w a tmpdir c n nprocess ntpp rs 2 0) = None
                           then fst (run_attempt w a tmpdir c n nprocess ntpp rs 2 1) else [])\<rparr>,
                   if snd (run_attempt w a tmpdir c n nprocess ntpp rs 2 0) = None
                   then snd (run_attempt w a tmpdir c n nprocess ntpp rs 2 1)
                   else snd (run_attempt w a tmpdir c n nprocess ntpp rs 2 0))
             else (s2\<lparr>last_blocked := is_blocked c,
                      trace := trace s2 @ fst (run_attempt w a tmpdir c n nprocess ntpp rs 1 0)\<rparr>,
                   snd (run_attempt w a tmpdir c n nprocess ntpp rs 1 0))))
   \<and> (attempt_procs a tmpdir c n nprocess ntpp rs (redo - idx) = Inr procs
     \<longrightarrow> length procs = nat nprocess
        \<and> (\<forall>i<nat nprocess.
              \<exists>exe. tool_exe (c_tool c) = Inr exe
                \<and> procs ! i =
                    start_worker a c (path_join3 (build_dir a) (pe_str a) (c_name c)) exe ntpp
                      (rs ! i ! 0) (if m2 a \<noteq> None then rs ! i ! 1 else [])
                      (if redo - idx = 1
                       then path_join (entry_odir a c)
                              (run_name_of (c_name c) (pe_str a) (c_mp_mt c) (int i) n (redo - idx) @ ''.out'')
                       else dev_null)
                      (if redo - idx = 1
                       then path_join (entry_odir a c)
                              (run_name_of (c_name c) (pe_str a) (c_mp_mt c) (int i) n (redo - idx) @ ''.err'')
                       else dev_null)
                      (if redo - idx = 1 \<and> \<not> sam_dev_null a
                       then path_join
                              (sam_dir (if sam_output_dir a then entry_odir a c else tmpdir) (c_name c)
                                 (pe_str a)
                                 (run_name_of (c_name c) (pe_str a) (c_mp_mt c) (int i) n (redo - idx)))
                              ''out.sam''
                       else dev_null))
        \<and> fst (run_attempt w a tmpdir c n nprocess ntpp rs redo idx) =
            (if redo - idx = 1 \<and> \<not> sam_dev_null a
             then map (\<lambda>runname. Mkdir (sam_dir (if sam_output_dir a then entry_odir a c else tmpdir)
                                          (c_name c) (pe_str a) runname))
                    (run_names_of a c n nprocess (redo - idx))
             else [])
            @ telemetry_start w
                (path_join (entry_odir a c) (hd (run_names_of a c n nprocess (redo - idx)) @ ''.iostat''))
                (path_join (entry_odir a c) (hd (run_names_of a c n nprocess (redo - idx)) @ ''.top''))
            @ procs
            @ sup_log (supervise (timeout a) (map (behaviour w) procs)) @ telemetry_kill w
            @ [touch (path_join (entry_odir a c)
                        (hd (run_names_of a c n nprocess (redo - idx)) @ ''.JOIN'')),
               touch (path_join (entry_odir a c)
                        (hd (run_names_of a c n nprocess (redo - idx))
                           @ outcome_ext (classify (exitlevels
                                (supervise (timeout a) (map (behaviour w) procs))))))]
            @ (if \<not> (classify (exitlevels (supervise (timeout a) (map (behaviour w) procs))) = FAIL
                      \<and> stop_on_fail a) \<and> delete_sam a \<and> redo - idx = 1 \<and> \<not> sam_dev_null a
               then map Remove (filter (\<lambda>sam_ofn. sam_ofn \<noteq> dev_null)
                      (map (\<lambda>runname. path_join
                                (sam_dir (if sam_output_dir a then entry_odir a c else tmpdir)
                                   (c_name c) (pe_str a) runname) ''out.sam'')
                         (run_names_of a c n nprocess (redo - idx))))
               else [])
        \<and> snd (run_attempt w a tmpdir c n nprocess ntpp rs redo idx) =
            (if classify (exitlevels (supervise (timeout a) (map (behaviour w) procs))) = FAIL
                \<and> stop_on_fail a
             then Some (SubprocessFailed (exitlevels (supervise (timeout a) (map (behaviour w) procs))))
             else None))"
  apply (rule conjI)
   apply (rule impI)
   apply (erule sweep_entry_repetitions)
  apply (rule impI)
  apply (erule run_attempt_contents)
  done

theorem warm_up_policy_witness:
  "sweep_entry (ex_world (ex_args False) 3 True) (ex_args False) ''tmp'' 1 ex_config sweep_init =
     (\<lparr>indexes_verified = {''bowtie''}, read_set = Some [[''tmp/v1/unp/1.fq'']], last_mp_mt = Some 0,
       last_blocked = False,
       trace =
         [Mkdir ''out/unp/v1'', VerifyIndex ''idx'' ''bowtie'', Mkdir ''tmp/v1/unp'',
          PrepareReads 1 0 ''tmp/v1/unp'' False,
          OpenW ''out/unp/v1/v1_unp_0_0_1_2.top'', OpenW ''out/unp/v1/v1_unp_0_0_1_2.iostat'',
          Start [''build/unp/v1/bowtie-align-s'', ''-p'', ''1'', ''idx'', ''-t'',
                 ''tmp/v1/unp/1.fq'', ''-S'', ''/dev/null''] ''/dev/null'' ''/dev/null'',
          System ''touch out/unp/v1/v1_unp_0_0_1_2.JOIN'',
          System ''touch out/unp/v1/v1_unp_0_0_1_2.SUCCEED'',
          Mkdir ''tmp/v1/unp/v1_unp_0_0_1_1'',
          OpenW ''out/unp/v1/v1_unp_0_0_1_1.top'', OpenW ''out/unp/v1/v1_unp_0_0_1_1.iostat'',
          Start [''build/unp/v1/bowtie-align-s'', ''-p'', ''1'', ''idx'', ''-t'',
                 ''tmp/v1/unp/1.fq'', ''-S'', ''tmp/v1/unp/v1_unp_0_0_1_1/out.sam'']
            ''out/unp/v1/v1_unp_0_0_1_1.out'' ''out/unp/v1/v1_unp_0_0_1_1.err'',
          System ''touch out/unp/v1/v1_unp_0_0_1_1.JOIN'',
          System ''touch out/unp/v1/v1_unp_0_0_1_1.SUCCEED'']\<rparr>, None)
   \<and> fst (run_attempt (ex_world (ex_args False) 3 True) (ex_args False) ''tmp'' ex_config 1 1 1
            [[''tmp/v1/unp/1.fq'']] 2 0)
       = [OpenW ''out/unp/v1/v1_unp_0_0_1_2.top'', OpenW ''out/unp/v1/v1_unp_0_0_1_2.iostat'',
          Start [''build/unp/v1/bowtie-align-s'', ''-p'', ''1'', ''idx'', ''-t'',
                 ''tmp/v1/unp/1.fq'', ''-S'', ''/dev/null''] ''/dev/null'' ''/dev/null'',
          System ''touch out/unp/v1/v1_unp_0_0_1_2.JOIN'',
          System ''touch out/unp/v1/v1_unp_0_0_1_2.SUCCEED'']"
proof -
  let ?a = "ex_args False"
  let ?w = "ex_world ?a 3 True"
  let ?rs = "[[''tmp/v1/unp/1.fq'']]"
  let ?s1 = "\<lparr>indexes_verified = {''bowtie''}, read_set = None, last_mp_mt = None,
      last_blocked = False, trace = [Mkdir ''out/unp/v1'', VerifyIndex ''idx'' ''bowtie'']\<rparr>"
  let ?s2 = "\<lparr>indexes_verified = {''bowtie''}, read_set = Some ?rs,
      last_mp_mt = Some 0, last_blocked = False,
      trace = [Mkdir ''out/unp/v1'', VerifyIndex ''idx'' ''bowtie'', Mkdir ''tmp/v1/unp'',
               PrepareReads 1 0 ''tmp/v1/unp'' False]\<rparr>"
  let ?procs = "[Start [''build/unp/v1/bowtie-align-s'', ''-p'', ''1'', ''idx'', ''-t'',
                  ''tmp/v1/unp/1.fq'', ''-S'', ''/dev/null''] ''/dev/null'' ''/dev/null'']"
  note wp = warm_up_policy [of ?w ?a ex_config sweep_init ?s1 1 "''tmp''" ?s2 ?rs 1 1 2 0 ?procs]
  have h1: "entry_head ?w ?a ex_config sweep_init = (?s1, None)" by (rule ex_head)
  have h2: "\<not> skipped 1 ex_config" by (rule ex_tests)
  have h3: "(if regime_changed ex_config ?s1
             then enter_regime ?w ?a ''tmp'' 1 ex_config (is_blocked ex_config) ?s1
             else (?s1, None)) = (?s2, None)"
    by (simp add: ex_tests ex_regime)
  have h4: "read_set ?s2 = Some ?rs" by simp
  have h5: "(1::int) = (if c_mp_mt ex_config = 0 then 1 else 1 div c_mp_mt ex_config)"
    "(1::int) \<le> 1" "(1::int) = (if c_mp_mt ex_config = 0 then 1 else c_mp_mt ex_config)"
    by (simp_all add: ex_config_mp)
  from h1 h2 h3 h4 h5 have hyp: "entry_head ?w ?a ex_config sweep_init = (?s1, None)
      \<and> \<not> skipped 1 ex_config
      \<and> (if regime_changed ex_config ?s1
          then enter_regime ?w ?a ''tmp'' 1 ex_config (is_blocked ex_config) ?s1
          else (?s1, None)) = (?s2, None)
      \<and> read_set ?s2 = Some ?rs
      \<and> (1::int) = (if c_mp_mt ex_config = 0 then 1 else 1 div c_mp_mt ex_config) \<and> (1::int) \<le> 1
      \<and> (1::int) = (if c_mp_mt ex_config = 0 then 1 else c_mp_mt ex_config)"
    by (intro conjI)
  note r1 = wp [THEN conjunct1, THEN mp, OF hyp, THEN conjunct2, THEN conjunct2]
  have v: "c_tool ex_config \<notin> indexes_verified sweep_init"
    by (simp add: sweep_init_def)
  have first: "sweep_entry ?w ?a ''tmp'' 1 ex_config sweep_init =
     (\<lparr>indexes_verified = {''bowtie''}, read_set = Some ?rs, last_mp_mt = Some 0,
       last_blocked = False,
       trace =
         [Mkdir ''out/unp/v1'', VerifyIndex ''idx'' ''bowtie'', Mkdir ''tmp/v1/unp'',
          PrepareReads 1 0 ''tmp/v1/unp'' False,
          OpenW ''out/unp/v1/v1_unp_0_0_1_2.top'', OpenW ''out/unp/v1/v1_unp_0_0_1_2.iostat'',
          Start [''build/unp/v1/bowtie-align-s'', ''-p'', ''1'', ''idx'', ''-t'',
                 ''tmp/v1/unp/1.fq'', ''-S'', ''/dev/null''] ''/dev/null'' ''/dev/null'',
          System ''touch out/unp/v1/v1_unp_0_0_1_2.JOIN'',
          System ''touch out/unp/v1/v1_unp_0_0_1_2.SUCCEED'',
          Mkdir ''tmp/v1/unp/v1_unp_0_0_1_1'',
          OpenW ''out/unp/v1/v1_unp_0_0_1_1.top'', OpenW ''out/unp/v1/v1_unp_0_0_1_1.iostat'',
          Start [''build/unp/v1/bowtie-align-s'', ''-p'', ''1'', ''idx'', ''-t'',
                 ''tmp/v1/unp/1.fq'', ''-S'', ''tmp/v1/unp/v1_unp_0_0_1_1/out.sam'']
            ''out/unp/v1/v1_unp_0_0_1_1.out'' ''out/unp/v1/v1_unp_0_0_1_1.err'',
          System ''touch out/unp/v1/v1_unp_0_0_1_1.JOIN'',
          System ''touch out/unp/v1/v1_unp_0_0_1_1.SUCCEED'']\<rparr>, None)"
    unfolding r1 by (simp add: v ex_run_warm ex_run_final ex_tests)
  have p: "attempt_procs ?a ''tmp'' ex_config 1 1 1 ?rs (2 - 0) = Inr ?procs"
    by (simp add: ex_warm_procs)
  note r2 = wp [THEN conjunct2, THEN mp, OF p, THEN conjunct2, THEN conjunct2, THEN conjunct1]
  have sup: "sup_log (supervise (timeout ?a) (map (behaviour ?w) ?procs)) = []"
    "exitlevels (supervise (timeout ?a) (map (behaviour ?w) ?procs)) = [Some 0]"
    by (simp_all add: ex_world_def ex_args_def ex_supervise)
  have second: "fst (run_attempt ?w ?a ''tmp'' ex_config 1 1 1 ?rs 2 0)
       = [OpenW ''out/unp/v1/v1_unp_0_0_1_2.top'', OpenW ''out/unp/v1/v1_unp_0_0_1_2.iostat'',
          Start [''build/unp/v1/bowtie-align-s'', ''-p'', ''1'', ''idx'', ''-t'',
                 ''tmp/v1/unp/1.fq'', ''-S'', ''/dev/null''] ''/dev/null'' ''/dev/null'',
          System ''touch out/unp/v1/v1_unp_0_0_1_2.JOIN'',
          System ''touch out/unp/v1/v1_unp_0_0_1_2.SUCCEED'']"
    unfolding r2 sup
    by (simp add: ex_names classify_def outcome_ext_def)
       (simp add: ex_simps telemetry_start_def telemetry_kill_def)
  from first second show ?thesis by (rule conjI)
qed

text \<open>
  C4 (amended). When the regime of an entry that is not skipped differs from the last one,
  the files of the read set held so far are removed right before the new reads are
  prepared. When the sweep runs to its end without an exception, the files of the read
  set it then holds are removed last. When an exception ends the sweep, nothing is done
  after it: no purge runs.
\<close>

theorem purge_policy:
  "(entry_head w a c s = (s1, None) \<and> \<not> skipped n c \<and> regime_changed c s1
      \<longrightarrow> (\<exists>rest. trace (fst (sweep_entry w a tmpdir n c s)) =
             trace s1 @ purge (read_set s)
             @ [Mkdir (path_join3 tmpdir (c_name c) (pe_str a)),
                PrepareReads n (c_mp_mt c) (path_join3 tmpdir (c_name c) (pe_str a)) (is_blocked c)]
             @ rest))
   \<and> (snd (sweep w a tmpdir cfgs series) = None
      \<longrightarrow> (\<exists>t. sweep_series w a tmpdir cfgs series sweep_init = (t, None)
              \<and> fst (sweep w a tmpdir cfgs series) = trace t @ purge (read_set t)))
   \<and> (snd (sweep w a tmpdir cfgs series) \<noteq> None
      \<longrightarrow> (\<exists>t. sweep_series w a tmpdir cfgs series sweep_init = (t, snd (sweep w a tmpdir cfgs series))
              \<and> fst (sweep w a tmpdir cfgs series) = trace t))"
proof (intro conjI impI)
  assume h: "entry_head w a c s = (s1, None) \<and> \<not> skipped n c \<and> regime_changed c s1"
  obtain s2 r where er: "enter_regime w a tmpdir n c (is_blocked c) s1 = (s2, r)"
    by (cases "enter_regime w a tmpdir n c (is_blocked c) s1")
  from entry_head_frame h have rs: "read_set s1 = read_set s" by blast
  note t2 = enter_regime_result [OF er]
  show "\<exists>rest. trace (fst (sweep_entry w a tmpdir n c s)) =
             trace s1 @ purge (read_set s)
             @ [Mkdir (path_join3 tmpdir (c_name c) (pe_str a)),
                PrepareReads n (c_mp_mt c) (path_join3 tmpdir (c_name c) (pe_str a)) (is_blocked c)]
             @ rest"
  proof (cases r)
    case (Some e)
    with h er have "sweep_entry w a tmpdir n c s = (s2, Some e)"
      by (simp add: sweep_entry_def)
    with t2 rs show ?thesis by simp
  next
    case None
    obtain s3 r3 where rp: "run_pair w a tmpdir n c
        (if c_tool c \<notin> indexes_verified s \<or> regime_changed c s1 then 2 else 1)
        (s2\<lparr>last_blocked := is_blocked c\<rparr>) = (s3, r3)"
      by (cases "run_pair w a tmpdir n c
        (if c_tool c \<notin> indexes_verified s \<or> regime_changed c s1 then 2 else 1)
        (s2\<lparr>last_blocked := is_blocked c\<rparr>)")
    from run_pair_frame [OF rp] obtain evs where "trace s3 = trace s2 @ evs" by auto
    moreover from None h er rp have "sweep_entry w a tmpdir n c s = (s3, r3)"
      by (simp add: sweep_entry_def)
    ultimately show ?thesis using t2 rs by simp
  qed
next
  assume "snd (sweep w a tmpdir cfgs series) = None"
  then show "\<exists>t. sweep_series w a tmpdir cfgs series sweep_init = (t, None)
              \<and> fst (sweep w a tmpdir cfgs series) = trace t @ purge (read_set t)"
    by (auto simp: sweep_def split: prod.splits option.splits)
next
  assume "snd (sweep w a tmpdir cfgs series) \<noteq> None"
  then show "\<exists>t. sweep_series w a tmpdir cfgs series sweep_init = (t, snd (sweep w a tmpdir cfgs series))
              \<and> fst (sweep w a tmpdir cfgs series) = trace t"
    by (auto simp: sweep_def split: prod.splits option.splits)
qed

theorem purge_counterexample:
  "snd (sweep (ex_world (ex_args True) 3 False) (ex_args True) ''tmp'' [ex_config] [1])
     = Some (SubprocessFailed [Some 1])
   \<and> PrepareReads 1 0 ''tmp/v1/unp'' False
       \<in> set (fst (sweep (ex_world (ex_args True) 3 False) (ex_args True) ''tmp'' [ex_config] [1]))
   \<and> partitioner (ex_world (ex_args True) 3 False) 1 0 ''tmp/v1/unp'' False = Inr [[''tmp/v1/unp/1.fq'']]
   \<and> Remove ''tmp/v1/unp/1.fq''
       \<notin> set (fst (sweep (ex_world (ex_args True) 3 False) (ex_args True) ''tmp'' [ex_config] [1]))"
  by (simp add: ex_sweep_fail) (simp add: ex_world_def ex_prepare)

end
